theory Spec2Isabelle
  imports Main "HOL-Library.Word"
begin

section \<open>Common data\<close>

text \<open>
  An \<open>ArrayBuffer\<close> is a sequence of octets. A JavaScript string is modelled as a
  \<open>string\<close> whose elements stand for the code units that \<open>.length\<close> counts.
  A rejected promise or a thrown \<open>Error\<close> is the left summand of a sum and carries the
  value of its \<open>message\<close> property.
\<close>

type_synonym bytes = "8 word list"

text \<open>
  The Web Crypto API is a collaborator of the workers, not code of the repository; the
  workers are modelled over an arbitrary implementation of the three calls they make.
  \<open>importKey\<close> is \<open>crypto.subtle.importKey('raw', encode(seed), 'PBKDF2', ...)\<close>,
  \<open>deriveKey\<close> is the PBKDF2 derivation from a salt, an iteration count and the imported
  material, and \<open>decrypt\<close> is AES-GCM decryption of a ciphertext (with its appended tag)
  under a key and an IV; each may reject.
\<close>

record ('m, 'k) subtle =
  importKey :: "string \<Rightarrow> string + 'm"
  deriveKey :: "string \<Rightarrow> nat \<Rightarrow> 'm \<Rightarrow> string + 'k"
  decrypt :: "'k \<Rightarrow> bytes \<Rightarrow> bytes \<Rightarrow> string + bytes"

section \<open>crypto.worker.ts: the seed-strategy decryption worker\<close>

text \<open>The two module-level variables \<open>seedKey\<close> and \<open>cryptoKey\<close>, both initially \<open>null\<close>.\<close>

record 'k crypto_worker =
  seedKey :: "string option"
  cryptoKey :: "'k option"

definition crypto_worker_initial :: "'k crypto_worker" where
  "crypto_worker_initial = \<lparr>seedKey = None, cryptoKey = None\<rparr>"

text \<open>
  \<open>event.data\<close> as the handler destructures it: the \<open>type\<close> selects the branch, \<open>INIT\<close>
  reads \<open>seedKey\<close> (which may be absent), \<open>DECRYPT\<close> reads \<open>data\<close>, and every other
  \<open>type\<close> falls to \<open>default\<close>.
\<close>

datatype crypto_msg =
  INIT "string option"
  | DECRYPT bytes
  | OtherType string

datatype crypto_reply =
  INIT_SUCCESS
  | DECRYPT_SUCCESS bytes
  | ERROR string

definition seed_too_short :: "string option \<Rightarrow> bool" where
  "seed_too_short seed = (case seed of None \<Rightarrow> True | Some s \<Rightarrow> s = [] \<or> length s < 32)"

text \<open>
  \<open>initializeCrypto\<close>: the result is the thrown message, if any, and the module state.
  The assignment \<open>seedKey = seed\<close> comes before the two awaited calls, so it survives
  their rejection.
\<close>

definition initializeCrypto ::
  "('m, 'k) subtle \<Rightarrow> string option \<Rightarrow> 'k crypto_worker \<Rightarrow> string option \<times> 'k crypto_worker" where
  "initializeCrypto cs seed w =
     (if seed_too_short seed then (Some ''Seed key must be at least 32 characters'', w)
      else
        let s = the seed; w1 = w\<lparr>seedKey := Some s\<rparr> in
        (case importKey cs s of
           Inl e \<Rightarrow> (Some e, w1)
         | Inr keyMaterial \<Rightarrow>
             (case deriveKey cs ''yo3Surveillance-AES-Salt-2024'' 100000 keyMaterial of
                Inl e \<Rightarrow> (Some e, w1)
              | Inr k \<Rightarrow> (None, w1\<lparr>cryptoKey := Some k\<rparr>))))"

text \<open>
  \<open>decryptData\<close>: the first 12 octets are the IV, the rest is ciphertext and tag
  (\<open>slice\<close> clamps to the length of the buffer, as \<open>take\<close> and \<open>drop\<close> do).
\<close>

definition decryptData :: "('m, 'k) subtle \<Rightarrow> bytes \<Rightarrow> 'k crypto_worker \<Rightarrow> string + bytes" where
  "decryptData cs encryptedBuffer w =
     (case cryptoKey w of
        None \<Rightarrow> Inl ''Crypto key not initialized. Call INIT first.''
      | Some k \<Rightarrow>
          (let iv = take 12 encryptedBuffer; ciphertext = drop 12 encryptedBuffer in
           case decrypt cs k iv ciphertext of
             Inl e \<Rightarrow> Inl (''Decryption failed: '' @ e @ ''. Verify seed key is correct.'')
           | Inr decrypted \<Rightarrow> Inr decrypted))"

text \<open>The \<open>catch\<close> of the handler: \<open>error.message || 'Unknown worker error'\<close>.\<close>

definition crypto_error_reply :: "string \<Rightarrow> crypto_reply" where
  "crypto_error_reply m = ERROR (if m = [] then ''Unknown worker error'' else m)"

text \<open>
  \<open>self.onmessage\<close> from the receipt of a message to its reply, when no other message
  is received while the handler is suspended: the messages posted back to the main
  thread, in order, and the module state afterwards.
\<close>

definition crypto_onmessage ::
  "('m, 'k) subtle \<Rightarrow> crypto_msg \<Rightarrow> 'k crypto_worker \<Rightarrow> crypto_reply list \<times> 'k crypto_worker" where
  "crypto_onmessage cs msg w =
     (case msg of
        INIT newSeedKey \<Rightarrow>
          (case initializeCrypto cs newSeedKey w of
             (None, w') \<Rightarrow> ([INIT_SUCCESS], w')
           | (Some e, w') \<Rightarrow> ([crypto_error_reply e], w'))
      | DECRYPT d \<Rightarrow>
          (case decryptData cs d w of
             Inr decrypted \<Rightarrow> ([DECRYPT_SUCCESS decrypted], w)
           | Inl e \<Rightarrow> ([crypto_error_reply e], w))
      | OtherType t \<Rightarrow> ([crypto_error_reply (''Unknown message type: '' @ t)], w))"


text \<open>
  The handler is an \<open>async\<close> function: it runs until its first \<open>await\<close> when the
  message is received, and the rest runs when the awaited call settles; messages received
  in between are handled in between. What a suspended handler waits for is one of the
  three calls. \<open>initializeCrypto\<close> waits for \<open>importKey\<close> and then for \<open>deriveKey\<close>, with
  its parameter \<open>seed\<close> in scope; \<open>decryptData\<close> waits for \<open>decrypt\<close>, which it has called
  with the key, the IV and the ciphertext it read when the message was received.
\<close>

datatype ('m, 'k) crypto_task =
  AwaitImportKey string
  | AwaitDeriveKey string 'm
  | AwaitDecrypt 'k bytes bytes

record ('m, 'k) crypto_process =
  cw_state :: "'k crypto_worker"
  cw_pending :: "('m, 'k) crypto_task list"

definition crypto_process_initial :: "('m, 'k) crypto_process" where
  "crypto_process_initial = \<lparr>cw_state = crypto_worker_initial, cw_pending = []\<rparr>"

text \<open>
  The handler from the receipt of a message to its first \<open>await\<close> of a call: the check
  of the seed, the assignment \<open>seedKey = seed\<close> and the call of \<open>importKey\<close> for \<open>INIT\<close>;
  the check of \<open>cryptoKey\<close>, the two slices and the call of \<open>decrypt\<close> for \<open>DECRYPT\<close>. An
  exception thrown on the way is caught by the handler and posted.
\<close>

definition crypto_receive ::
  "crypto_msg \<Rightarrow> ('m, 'k) crypto_process \<Rightarrow> crypto_reply list \<times> ('m, 'k) crypto_process" where
  "crypto_receive msg pr =
     (case msg of
        INIT newSeedKey \<Rightarrow>
          (if seed_too_short newSeedKey
           then ([crypto_error_reply ''Seed key must be at least 32 characters''], pr)
           else ([], pr\<lparr>cw_state := (cw_state pr)\<lparr>seedKey := newSeedKey\<rparr>,
                       cw_pending := cw_pending pr @ [AwaitImportKey (the newSeedKey)]\<rparr>))
      | DECRYPT d \<Rightarrow>
          (case cryptoKey (cw_state pr) of
             None \<Rightarrow> ([crypto_error_reply ''Crypto key not initialized. Call INIT first.''], pr)
           | Some k \<Rightarrow>
               ([], pr\<lparr>cw_pending := cw_pending pr @ [AwaitDecrypt k (take 12 d) (drop 12 d)]\<rparr>))
      | OtherType t \<Rightarrow> ([crypto_error_reply (''Unknown message type: '' @ t)], pr))"

text \<open>
  The suspended handler at position \<open>i\<close> goes on, its call having settled. After
  \<open>importKey\<close> it calls \<open>deriveKey\<close> and is suspended again; after \<open>deriveKey\<close> it assigns
  \<open>cryptoKey\<close> and posts \<open>INIT_SUCCESS\<close>; after \<open>decrypt\<close> it posts the plaintext. A
  rejection is posted as an \<open>ERROR\<close>.
\<close>

definition crypto_resume ::
  "('m, 'k) subtle \<Rightarrow> nat \<Rightarrow> ('m, 'k) crypto_process \<Rightarrow>
     crypto_reply list \<times> ('m, 'k) crypto_process" where
  "crypto_resume cs i pr =
     (if i < length (cw_pending pr) then
        (let others = take i (cw_pending pr) @ drop (Suc i) (cw_pending pr);
             pr1 = pr\<lparr>cw_pending := others\<rparr>
         in case cw_pending pr ! i of
              AwaitImportKey seed \<Rightarrow>
                (case importKey cs seed of
                   Inl e \<Rightarrow> ([crypto_error_reply e], pr1)
                 | Inr keyMaterial \<Rightarrow>
                     ([], pr\<lparr>cw_pending := others @ [AwaitDeriveKey seed keyMaterial]\<rparr>))
            | AwaitDeriveKey seed keyMaterial \<Rightarrow>
                (case deriveKey cs ''yo3Surveillance-AES-Salt-2024'' 100000 keyMaterial of
                   Inl e \<Rightarrow> ([crypto_error_reply e], pr1)
                 | Inr k \<Rightarrow>
                     ([INIT_SUCCESS],
                      pr\<lparr>cw_state := (cw_state pr)\<lparr>cryptoKey := Some k\<rparr>, cw_pending := others\<rparr>))
            | AwaitDecrypt k iv ciphertext \<Rightarrow>
                (case decrypt cs k iv ciphertext of
                   Inl e \<Rightarrow>
                     ([crypto_error_reply
                         (''Decryption failed: '' @ e @ ''. Verify seed key is correct.'')], pr1)
                 | Inr decrypted \<Rightarrow> ([DECRYPT_SUCCESS decrypted], pr1)))
      else ([], pr))"

text \<open>
  What happens in a worker: a message is received, or the call a suspended handler
  waits for settles. A schedule is a list of such events.
\<close>

datatype crypto_event = Receive crypto_msg | Resume nat

definition crypto_step ::
  "('m, 'k) subtle \<Rightarrow> crypto_event \<Rightarrow> ('m, 'k) crypto_process \<Rightarrow>
     crypto_reply list \<times> ('m, 'k) crypto_process" where
  "crypto_step cs ev pr =
     (case ev of Receive msg \<Rightarrow> crypto_receive msg pr | Resume i \<Rightarrow> crypto_resume cs i pr)"

fun crypto_exec ::
  "('m, 'k) subtle \<Rightarrow> crypto_event list \<Rightarrow> ('m, 'k) crypto_process \<Rightarrow>
     crypto_reply list \<times> ('m, 'k) crypto_process" where
  "crypto_exec cs [] pr = ([], pr)"
| "crypto_exec cs (ev # evs) pr =
     (let (out, pr') = crypto_step cs ev pr; (outs, pr'') = crypto_exec cs evs pr'
      in (out @ outs, pr''))"

text \<open>
  The seed of the latest \<open>INIT\<close> with a seed of at least 32 characters that a schedule
  receives, or the first argument when it receives none.
\<close>

fun latest_seed :: "string option \<Rightarrow> crypto_event list \<Rightarrow> string option" where
  "latest_seed cur [] = cur"
| "latest_seed cur (Receive (INIT s) # evs) =
     latest_seed (if seed_too_short s then cur else s) evs"
| "latest_seed cur (ev # evs) = latest_seed cur evs"

text \<open>
  What a suspended \<open>initializeCrypto\<close> holds, given the seeds \<open>S\<close> of the valid \<open>INIT\<close>
  messages received so far: its seed is one of them, and the key material it derives
  from is what \<open>importKey\<close> made of that seed.
\<close>

fun crypto_task_ok :: "('m, 'k) subtle \<Rightarrow> string set \<Rightarrow> ('m, 'k) crypto_task \<Rightarrow> bool" where
  "crypto_task_ok cs S (AwaitImportKey seed) = (seed \<in> S)"
| "crypto_task_ok cs S (AwaitDeriveKey seed keyMaterial) =
     (seed \<in> S \<and> importKey cs seed = Inr keyMaterial)"
| "crypto_task_ok cs S (AwaitDecrypt k iv ciphertext) = True"

definition valid_seeds :: "crypto_event list \<Rightarrow> string set" where
  "valid_seeds evs = {s. Receive (INIT (Some s)) \<in> set evs \<and> 32 \<le> length s}"

section \<open>stream.worker.ts: the stream-processing worker\<close>

text \<open>
  The second worker is the same program with other names, another salt and other texts
  (\<open>PROCESS\<close> for \<open>DECRYPT\<close>, \<open>processorKey\<close> for \<open>cryptoKey\<close>). Its handler is modelled as
  it runs, from \<open>await\<close> to \<open>await\<close>.
\<close>

record 'k stream_worker =
  streamSeedKey :: "string option"
  processorKey :: "'k option"

definition stream_worker_initial :: "'k stream_worker" where
  "stream_worker_initial = \<lparr>streamSeedKey = None, processorKey = None\<rparr>"

datatype stream_msg =
  SINIT "string option"
  | PROCESS bytes
  | SOtherType string

datatype stream_reply =
  SINIT_SUCCESS
  | PROCESS_SUCCESS bytes
  | SERROR string

definition stream_error_reply :: "string \<Rightarrow> stream_reply" where
  "stream_error_reply m = SERROR (if m = [] then ''Unknown worker error'' else m)"

datatype ('m, 'k) stream_task =
  SAwaitImportKey string
  | SAwaitDeriveKey string 'm
  | SAwaitDecrypt 'k bytes bytes

record ('m, 'k) stream_process =
  sw_state :: "'k stream_worker"
  sw_pending :: "('m, 'k) stream_task list"

definition stream_process_initial :: "('m, 'k) stream_process" where
  "stream_process_initial = \<lparr>sw_state = stream_worker_initial, sw_pending = []\<rparr>"

text \<open>
  The handler up to its first \<open>await\<close> of a call: \<open>initializeProcessor\<close> checks the seed,
  assigns \<open>seedKey\<close> and calls \<open>importKey\<close>; \<open>processData\<close> checks \<open>processorKey\<close>, slices
  the buffer and calls \<open>decrypt\<close>.
\<close>

definition stream_receive ::
  "stream_msg \<Rightarrow> ('m, 'k) stream_process \<Rightarrow> stream_reply list \<times> ('m, 'k) stream_process" where
  "stream_receive msg pr =
     (case msg of
        SINIT newSeedKey \<Rightarrow>
          (if seed_too_short newSeedKey
           then ([stream_error_reply ''Seed key must be at least 32 characters''], pr)
           else ([], pr\<lparr>sw_state := (sw_state pr)\<lparr>streamSeedKey := newSeedKey\<rparr>,
                       sw_pending := sw_pending pr @ [SAwaitImportKey (the newSeedKey)]\<rparr>))
      | PROCESS d \<Rightarrow>
          (case processorKey (sw_state pr) of
             None \<Rightarrow>
               ([stream_error_reply ''Processor key not initialized. Call INIT first.''], pr)
           | Some k \<Rightarrow>
               ([], pr\<lparr>sw_pending := sw_pending pr @ [SAwaitDecrypt k (take 12 d) (drop 12 d)]\<rparr>))
      | SOtherType t \<Rightarrow> ([stream_error_reply (''Unknown message type: '' @ t)], pr))"

definition stream_resume ::
  "('m, 'k) subtle \<Rightarrow> nat \<Rightarrow> ('m, 'k) stream_process \<Rightarrow>
     stream_reply list \<times> ('m, 'k) stream_process" where
  "stream_resume cs i pr =
     (if i < length (sw_pending pr) then
        (let others = take i (sw_pending pr) @ drop (Suc i) (sw_pending pr);
             pr1 = pr\<lparr>sw_pending := others\<rparr>
         in case sw_pending pr ! i of
              SAwaitImportKey seed \<Rightarrow>
                (case importKey cs seed of
                   Inl e \<Rightarrow> ([stream_error_reply e], pr1)
                 | Inr keyMaterial \<Rightarrow>
                     ([], pr\<lparr>sw_pending := others @ [SAwaitDeriveKey seed keyMaterial]\<rparr>))
            | SAwaitDeriveKey seed keyMaterial \<Rightarrow>
                (case deriveKey cs ''yo3Surveillance-Stream-Salt-2024'' 100000 keyMaterial of
                   Inl e \<Rightarrow> ([stream_error_reply e], pr1)
                 | Inr k \<Rightarrow>
                     ([SINIT_SUCCESS],
                      pr\<lparr>sw_state := (sw_state pr)\<lparr>processorKey := Some k\<rparr>,
                         sw_pending := others\<rparr>))
            | SAwaitDecrypt k iv ciphertext \<Rightarrow>
                (case decrypt cs k iv ciphertext of
                   Inl e \<Rightarrow>
                     ([stream_error_reply
                         (''Processing failed: '' @ e @ ''. Verify seed key is correct.'')], pr1)
                 | Inr processed \<Rightarrow> ([PROCESS_SUCCESS processed], pr1)))
      else ([], pr))"

datatype stream_event = SReceive stream_msg | SResume nat

definition stream_step ::
  "('m, 'k) subtle \<Rightarrow> stream_event \<Rightarrow> ('m, 'k) stream_process \<Rightarrow>
     stream_reply list \<times> ('m, 'k) stream_process" where
  "stream_step cs ev pr =
     (case ev of SReceive msg \<Rightarrow> stream_receive msg pr | SResume i \<Rightarrow> stream_resume cs i pr)"

fun stream_exec ::
  "('m, 'k) subtle \<Rightarrow> stream_event list \<Rightarrow> ('m, 'k) stream_process \<Rightarrow>
     stream_reply list \<times> ('m, 'k) stream_process" where
  "stream_exec cs [] pr = ([], pr)"
| "stream_exec cs (ev # evs) pr =
     (let (out, pr') = stream_step cs ev pr; (outs, pr'') = stream_exec cs evs pr'
      in (out @ outs, pr''))"

fun stream_latest_seed :: "string option \<Rightarrow> stream_event list \<Rightarrow> string option" where
  "stream_latest_seed cur [] = cur"
| "stream_latest_seed cur (SReceive (SINIT s) # evs) =
     stream_latest_seed (if seed_too_short s then cur else s) evs"
| "stream_latest_seed cur (ev # evs) = stream_latest_seed cur evs"

fun stream_task_ok :: "('m, 'k) subtle \<Rightarrow> string set \<Rightarrow> ('m, 'k) stream_task \<Rightarrow> bool" where
  "stream_task_ok cs S (SAwaitImportKey seed) = (seed \<in> S)"
| "stream_task_ok cs S (SAwaitDeriveKey seed keyMaterial) =
     (seed \<in> S \<and> importKey cs seed = Inr keyMaterial)"
| "stream_task_ok cs S (SAwaitDecrypt k iv ciphertext) = True"

definition stream_valid_seeds :: "stream_event list \<Rightarrow> string set" where
  "stream_valid_seeds evs = {s. SReceive (SINIT (Some s)) \<in> set evs \<and> 32 \<le> length s}"

text \<open>
  A stand-in for the Web Crypto API at which the theorems below are instantiated: the
  imported material is the seed, the derived key is salt and seed together, and a buffer
  decrypts (to its ciphertext part without the last 16 octets) only when those octets,
  the tag, are the first 16 octets of the key.
\<close>

definition sample_subtle :: "(string, bytes) subtle" where
  "sample_subtle =
     \<lparr>importKey = (\<lambda>s. Inr s),
      deriveKey = (\<lambda>salt n m. Inr (map (\<lambda>c. of_nat (of_char c)) (salt @ m))),
      decrypt = (\<lambda>k iv c.
        if 16 \<le> length c \<and> drop (length c - 16) c = take 16 k
        then Inr (take (length c - 16) c)
        else Inl ''The operation failed for an operation-specific reason'')\<rparr>"

definition sample_seed :: string where
  "sample_seed = ''correct horse battery staple 0123456789''"

definition sample_seed_2 :: string where
  "sample_seed_2 = ''another passphrase of more than 32 characters''"

section \<open>data.worker.ts: the master-key data worker\<close>

record worker_config =
  algorithm :: string
  keySize :: nat

definition default_config :: worker_config where
  "default_config = \<lparr>algorithm = ''AES-GCM'', keySize = 256\<rparr>"

text \<open>
  \<open>ProcessMessage\<close>: the \<open>type\<close> is kept as a string, since the handler compares it with
  \<open>===\<close> and lets every other value fall through; the three other properties are optional.
\<close>

record process_message =
  msg_type :: string
  encodedData :: "bytes option"
  dataKey :: "bytes option"
  config :: "worker_config option"

datatype data_reply =
  Loaded
  | Ready string
  | Processed bytes nat
  | DataError string

text \<open>What a rejected call throws: an \<open>Error\<close> with its message, or some other value.\<close>

datatype thrown = ErrorObject string | NotAnError

record 'k raw_subtle =
  importRawKey :: "bytes \<Rightarrow> thrown + 'k"
  decryptRaw :: "'k \<Rightarrow> bytes \<Rightarrow> bytes \<Rightarrow> thrown + bytes"

definition processEncodedData :: "'k raw_subtle \<Rightarrow> bytes \<Rightarrow> bytes \<Rightarrow> thrown + bytes" where
  "processEncodedData rs encoded keyData =
     (case importRawKey rs keyData of
        Inl t \<Rightarrow> Inl t
      | Inr key \<Rightarrow> decryptRaw rs key (take 12 encoded) (drop 12 encoded))"

text \<open>
  \<open>self.onmessage\<close> of the data worker; \<open>now\<close> is the value of \<open>Date.now()\<close>. An
  \<open>ArrayBuffer\<close> is an object and so truthy whatever its length: \<open>encodedData && dataKey\<close>
  tests that both properties are present.
\<close>

definition data_onmessage ::
  "'k raw_subtle \<Rightarrow> nat \<Rightarrow> process_message \<Rightarrow> worker_config \<Rightarrow> data_reply list \<times> worker_config" where
  "data_onmessage rs now e cfg =
     (if msg_type e = ''init'' then
        ([Ready ''Worker initialized with AES-256-GCM''],
         (case config e of Some c \<Rightarrow> c | None \<Rightarrow> cfg))
      else if msg_type e = ''process'' \<and> encodedData e \<noteq> None \<and> dataKey e \<noteq> None then
        (case processEncodedData rs (the (encodedData e)) (the (dataKey e)) of
           Inr processed \<Rightarrow> ([Processed processed now], cfg)
         | Inl (ErrorObject m) \<Rightarrow> ([DataError m], cfg)
         | Inl NotAnError \<Rightarrow> ([DataError ''Unknown error''], cfg))
      else ([], cfg))"

definition sample_raw_subtle :: "bytes raw_subtle" where
  "sample_raw_subtle =
     \<lparr>importRawKey = (\<lambda>k. if length k = 32 then Inr k
                          else Inl (ErrorObject ''AES key data must be 128 or 256 bits'')),
      decryptRaw = (\<lambda>k iv c.
        if 16 \<le> length c \<and> drop (length c - 16) c = take 16 k
        then Inr (take (length c - 16) c)
        else Inl (ErrorObject ''The operation failed for an operation-specific reason''))\<rparr>"

section \<open>KeyStorageService: the key store\<close>

text \<open>
  The object store \<open>keys\<close> of the database, with key path \<open>id\<close>, is a map from the
  \<open>id\<close> to the stored object. \<open>db_open\<close> says whether \<open>this.db\<close> holds a handle.
\<close>

record key_record =
  rec_id :: string
  keyData :: bytes
  createdAt :: nat

record key_storage =
  db_open :: bool
  objects :: "string \<rightharpoonup> key_record"

text \<open>
  What IndexedDB does to one call is not decided by the service: \<open>open_error\<close> is the
  \<open>request.error\<close> of a failing \<open>indexedDB.open\<close>, \<open>request_error\<close> that of a failing
  \<open>put\<close>, \<open>get\<close> or \<open>delete\<close> request; \<open>None\<close> means that \<open>onsuccess\<close> fires.
\<close>

record idb_faults =
  open_error :: "string option"
  request_error :: "string option"

definition no_faults :: idb_faults where
  "no_faults = \<lparr>open_error = None, request_error = None\<rparr>"

definition master_key_id :: "string \<Rightarrow> string" where
  "master_key_id deviceId = ''master-key-'' @ deviceId"

definition initialize :: "idb_faults \<Rightarrow> key_storage \<Rightarrow> (string + unit) \<times> key_storage" where
  "initialize f s =
     (case open_error f of
        Some e \<Rightarrow> (Inl e, s)
      | None \<Rightarrow> (Inr (), s\<lparr>db_open := True\<rparr>))"

text \<open>\<open>if (!this.db) await this.initialize()\<close>, the first line of every operation.\<close>

definition ensure_db :: "idb_faults \<Rightarrow> key_storage \<Rightarrow> (string + unit) \<times> key_storage" where
  "ensure_db f s = (if db_open s then (Inr (), s) else initialize f s)"

definition storeMasterKey ::
  "bytes \<Rightarrow> string \<Rightarrow> nat \<Rightarrow> idb_faults \<Rightarrow> key_storage \<Rightarrow> (string + unit) \<times> key_storage" where
  "storeMasterKey kd deviceId now f s =
     (case ensure_db f s of
        (Inl e, s1) \<Rightarrow> (Inl e, s1)
      | (Inr u, s1) \<Rightarrow>
          (case request_error f of
             Some e \<Rightarrow> (Inl e, s1)
           | None \<Rightarrow>
               (Inr (),
                s1\<lparr>objects := (objects s1)(master_key_id deviceId \<mapsto>
                      \<lparr>rec_id = master_key_id deviceId, keyData = kd, createdAt = now\<rparr>)\<rparr>)))"

text \<open>\<open>resolve(result ? result.keyData : null)\<close>: \<open>None\<close> is the \<open>null\<close> of a missing key.\<close>

definition getMasterKey ::
  "string \<Rightarrow> idb_faults \<Rightarrow> key_storage \<Rightarrow> (string + bytes option) \<times> key_storage" where
  "getMasterKey deviceId f s =
     (case ensure_db f s of
        (Inl e, s1) \<Rightarrow> (Inl e, s1)
      | (Inr u, s1) \<Rightarrow>
          (case request_error f of
             Some e \<Rightarrow> (Inl e, s1)
           | None \<Rightarrow>
               (case objects s1 (master_key_id deviceId) of
                  Some result \<Rightarrow> (Inr (Some (keyData result)), s1)
                | None \<Rightarrow> (Inr None, s1))))"

definition deleteMasterKey ::
  "string \<Rightarrow> idb_faults \<Rightarrow> key_storage \<Rightarrow> (string + unit) \<times> key_storage" where
  "deleteMasterKey deviceId f s =
     (case ensure_db f s of
        (Inl e, s1) \<Rightarrow> (Inl e, s1)
      | (Inr u, s1) \<Rightarrow>
          (case request_error f of
             Some e \<Rightarrow> (Inl e, s1)
           | None \<Rightarrow> (Inr (), s1\<lparr>objects := (objects s1)(master_key_id deviceId := None)\<rparr>)))"

definition key_storage_initial :: key_storage where
  "key_storage_initial = \<lparr>db_open = False, objects = Map.empty\<rparr>"

section \<open>DevicePairing.tsx: the pairing coordinator\<close>

datatype pairing_status = Idle | Pairing | Paired | PairingError

text \<open>
  The component state held by \<open>useState\<close>, and whether the \<open>WebSocket\<close> of the current
  attempt exists and has not been closed by the component.
\<close>

record pairing_state =
  qrCodeImage :: string
  pairing_status :: pairing_status
  paired_deviceId :: string
  pairing_error :: string
  ws_open :: bool

definition pairing_initial :: pairing_state where
  "pairing_initial =
     \<lparr>qrCodeImage = [], pairing_status = Idle, paired_deviceId = [], pairing_error = [],
      ws_open = False\<rparr>"

text \<open>
  \<open>startPairing\<close> is a closure of one render of the component: the constant \<open>status\<close> it
  reads is the status of that render, which the later \<open>setStatus\<close> calls do not change.
  The first argument is the outcome of steps 1 to 3 (key pair, digest, QR image), which
  either throw or yield the image. With the new state comes the value of \<open>status\<close> that
  the socket handlers created by this call have captured (\<open>None\<close> when no socket was made).
\<close>

definition startPairing ::
  "thrown + string \<Rightarrow> pairing_state \<Rightarrow> pairing_status option \<times> pairing_state" where
  "startPairing prepared st =
     (let captured = pairing_status st;
          st1 = st\<lparr>pairing_status := Pairing, pairing_error := []\<rparr>
      in case prepared of
           Inl (ErrorObject m) \<Rightarrow> (None, st1\<lparr>pairing_error := m, pairing_status := PairingError\<rparr>)
         | Inl NotAnError \<Rightarrow>
             (None, st1\<lparr>pairing_error := ''Unknown error'', pairing_status := PairingError\<rparr>)
         | Inr qrImage \<Rightarrow> (Some captured, st1\<lparr>qrCodeImage := qrImage, ws_open := True\<rparr>))"

text \<open>The two buttons whose \<open>onClick\<close> is \<open>startPairing\<close> are rendered in these states only.\<close>

definition start_button_rendered :: "pairing_state \<Rightarrow> bool" where
  "start_button_rendered st =
     (pairing_status st = Idle \<or> pairing_status st = PairingError)"

definition click_start ::
  "thrown + string \<Rightarrow> pairing_state \<Rightarrow> pairing_status option \<times> pairing_state" where
  "click_start prepared st =
     (if start_button_rendered st then startPairing prepared st else (None, st))"

definition ws_onerror :: "pairing_state \<Rightarrow> pairing_state" where
  "ws_onerror st =
     st\<lparr>pairing_error := ''Connection to device failed'', pairing_status := PairingError,
        ws_open := False\<rparr>"

text \<open>\<open>ws.onclose\<close>, with the captured \<open>status\<close> and \<open>event.wasClean\<close>.\<close>

definition ws_onclose :: "pairing_status \<Rightarrow> bool \<Rightarrow> pairing_state \<Rightarrow> pairing_state" where
  "ws_onclose captured wasClean st =
     (if captured = Pairing \<and> \<not> wasClean
      then st\<lparr>pairing_error := ''Connection closed unexpectedly'', pairing_status := PairingError\<rparr>
      else st)"

section \<open>VideoPlayer: the seed-strategy player and its workers\<close>

record player_props =
  streamUrl :: string
  seedKeyProp :: string
  autoplay :: bool

text \<open>
  How the \<open>fetch\<close> of the stream settles: it rejects, it resolves to a response that is
  not \<open>ok\<close> (status and status text, as the template literal prints them), or it resolves
  to the octets of the body.
\<close>

datatype fetch_result =
  FetchRejected string
  | FetchNotOk string string
  | FetchOk bytes

text \<open>
  What an observer of the player sees, in the order in which it happens. Workers are
  numbered in the order of their construction.
\<close>

datatype player_effect =
  WorkerCreated nat
  | Posted nat stream_msg
  | FetchIssued string
  | Received nat stream_reply
  | OnError string
  | WorkerTerminated nat
  | PlayCalled
  | SrcAssigned bytes

text \<open>
  Every call of \<open>initializePlayer\<close> constructs one worker and issues one fetch, so the
  calls and the workers share their numbers. A session holds the props of the render
  that made the call, whether the call is still suspended at the \<open>await\<close> of its fetch,
  and its worker: whether it has not been terminated, the messages posted to it that it
  has not received, the worker itself, and the replies it has posted that the player has
  not received.
\<close>

record ('m, 'k) player_session =
  se_props :: player_props
  se_fetch_pending :: bool
  se_alive :: bool
  se_inbox :: "stream_msg list"
  se_worker :: "('m, 'k) stream_process"
  se_outbox :: "stream_reply list"

text \<open>
  The component: its state, \<open>workerRef.current\<close>, whether it is mounted (and so
  \<open>videoRef.current\<close> is the video element and not \<open>null\<close>), its sessions and the trace.
\<close>

record ('m, 'k) video_player =
  isLoading :: bool
  player_error :: "string option"
  isPlaying :: bool
  workerRef :: "nat option"
  mounted :: bool
  sessions :: "('m, 'k) player_session list"
  player_log :: "player_effect list"

definition player_initial :: "('m, 'k) video_player" where
  "player_initial =
     \<lparr>isLoading = True, player_error = None, isPlaying = False, workerRef = None,
      mounted = True, sessions = [], player_log = []\<rparr>"

text \<open>A state setter of an unmounted component does nothing.\<close>

definition set_state ::
  "(('m, 'k) video_player \<Rightarrow> ('m, 'k) video_player) \<Rightarrow> ('m, 'k) video_player \<Rightarrow>
     ('m, 'k) video_player" where
  "set_state f st = (if mounted st then f st else st)"

text \<open>\<open>postMessage\<close> on worker \<open>w\<close>; a terminated worker receives nothing.\<close>

definition post_message ::
  "nat \<Rightarrow> stream_msg \<Rightarrow> ('m, 'k) video_player \<Rightarrow> ('m, 'k) video_player" where
  "post_message w m st =
     (let st1 = st\<lparr>player_log := player_log st @ [Posted w m]\<rparr>
      in if w < length (sessions st) \<and> se_alive (sessions st ! w)
         then st1\<lparr>sessions := (sessions st)
                [w := (sessions st ! w)\<lparr>se_inbox := se_inbox (sessions st ! w) @ [m]\<rparr>]\<rparr>
         else st1)"

text \<open>
  \<open>initializePlayer\<close> up to the \<open>await\<close> inside \<open>fetchAndDecryptStream\<close>: the worker is
  constructed and stored in \<open>workerRef.current\<close>, \<open>INIT\<close> is posted, the fetch is issued.
  The constructor of the worker is taken to return.
\<close>

definition initializePlayer ::
  "player_props \<Rightarrow> ('m, 'k) video_player \<Rightarrow> ('m, 'k) video_player" where
  "initializePlayer p st =
     (let w = length (sessions st);
          st1 = set_state (\<lambda>s. s\<lparr>isLoading := True, player_error := None\<rparr>) st;
          st2 = st1\<lparr>workerRef := Some w,
                   sessions := sessions st1 @
                     [\<lparr>se_props = p, se_fetch_pending = True, se_alive = True, se_inbox = [],
                       se_worker = stream_process_initial, se_outbox = []\<rparr>],
                   player_log := player_log st1 @ [WorkerCreated w]\<rparr>;
          st3 = post_message w (SINIT (Some (seedKeyProp p))) st2
      in st3\<lparr>player_log := player_log st3 @ [FetchIssued (streamUrl p)]\<rparr>)"

text \<open>The \<open>catch\<close> of \<open>initializePlayer\<close>.\<close>

definition player_failed :: "string \<Rightarrow> ('m, 'k) video_player \<Rightarrow> ('m, 'k) video_player" where
  "player_failed m st =
     (let e = ''Failed to initialize player: '' @ m;
          st1 = set_state (\<lambda>s. s\<lparr>player_error := Some e, isLoading := False\<rparr>) st
      in st1\<lparr>player_log := player_log st1 @ [OnError e]\<rparr>)"

text \<open>
  The rest of \<open>fetchAndDecryptStream\<close> and of \<open>initializePlayer\<close> for session \<open>n\<close>, run
  when its fetch settles. \<open>PROCESS\<close> goes to the worker that \<open>workerRef.current\<close> holds
  at that moment, if it holds one; \<open>play\<close> is called if \<open>autoplay\<close> is set and
  \<open>videoRef.current\<close> is not \<open>null\<close>.
\<close>

definition fetch_settled ::
  "nat \<Rightarrow> fetch_result \<Rightarrow> ('m, 'k) video_player \<Rightarrow> ('m, 'k) video_player" where
  "fetch_settled n r st =
     (if n < length (sessions st) \<and> se_fetch_pending (sessions st ! n) then
        (let p = se_props (sessions st ! n);
             st0 = st\<lparr>sessions := (sessions st)
                     [n := (sessions st ! n)\<lparr>se_fetch_pending := False\<rparr>]\<rparr>
         in case r of
              FetchRejected m \<Rightarrow> player_failed (''Failed to fetch stream: '' @ m) st0
            | FetchNotOk code txt \<Rightarrow>
                player_failed (''Failed to fetch stream: '' @ ''HTTP '' @ code @ '': '' @ txt) st0
            | FetchOk encryptedData \<Rightarrow>
                (let st1 = (case workerRef st0 of
                              None \<Rightarrow> st0
                            | Some w \<Rightarrow> post_message w (PROCESS encryptedData) st0);
                     st2 = set_state (\<lambda>s. s\<lparr>isLoading := False\<rparr>) st1
                 in if autoplay p \<and> mounted st2
                    then st2\<lparr>isPlaying := True, player_log := player_log st2 @ [PlayCalled]\<rparr>
                    else st2))
      else st)"

text \<open>\<open>handleWorkerMessage\<close>, the \<open>onmessage\<close> of every worker of the player.\<close>

definition handleWorkerMessage ::
  "nat \<Rightarrow> stream_reply \<Rightarrow> ('m, 'k) video_player \<Rightarrow> ('m, 'k) video_player" where
  "handleWorkerMessage w m st =
     (let st1 = st\<lparr>player_log := player_log st @ [Received w m]\<rparr>
      in case m of
           SINIT_SUCCESS \<Rightarrow> st1
         | PROCESS_SUCCESS d \<Rightarrow>
             (if mounted st1 then st1\<lparr>player_log := player_log st1 @ [SrcAssigned d]\<rparr> else st1)
         | SERROR e \<Rightarrow>
             (let st2 = set_state (\<lambda>s. s\<lparr>player_error := Some e\<rparr>) st1
              in st2\<lparr>player_log := player_log st2 @ [OnError e]\<rparr>))"

text \<open>\<open>cleanup\<close>: the worker in \<open>workerRef.current\<close> is terminated and the ref cleared.\<close>

definition cleanup :: "('m, 'k) video_player \<Rightarrow> ('m, 'k) video_player" where
  "cleanup st =
     (case workerRef st of
        None \<Rightarrow> st
      | Some w \<Rightarrow>
          st\<lparr>workerRef := None,
             sessions := (if w < length (sessions st)
                          then (sessions st)
                            [w := (sessions st ! w)\<lparr>se_alive := False, se_inbox := [],
                                                     se_outbox := []\<rparr>]
                          else sessions st),
             player_log := player_log st @ [WorkerTerminated w]\<rparr>)"

text \<open>
  What can happen to a mounted player: the fetch of a session settles; a live worker
  receives the next message posted to it; the call a suspended handler of a live worker
  waits for settles; the next reply of a live worker reaches the player; \<open>streamUrl\<close> or
  \<open>seedKey\<close> change, so that the cleanup runs and then the effect again; the component
  is unmounted, so that the cleanup runs and \<open>videoRef.current\<close> becomes \<open>null\<close>.
\<close>

datatype player_event =
  FetchSettles nat fetch_result
  | WorkerReceives nat
  | WorkerResumes nat nat
  | ReplyDelivered nat
  | PropsChanged player_props
  | PlayerUnmounts

definition player_step ::
  "('m, 'k) subtle \<Rightarrow> player_event \<Rightarrow> ('m, 'k) video_player \<Rightarrow> ('m, 'k) video_player" where
  "player_step cs ev st =
     (case ev of
        FetchSettles n r \<Rightarrow> fetch_settled n r st
      | WorkerReceives n \<Rightarrow>
          (if n < length (sessions st) \<and> se_alive (sessions st ! n) then
             (case se_inbox (sessions st ! n) of
                [] \<Rightarrow> st
              | m # ms \<Rightarrow>
                  (let (out, pr) = stream_receive m (se_worker (sessions st ! n))
                   in st\<lparr>sessions := (sessions st)
                          [n := (sessions st ! n)\<lparr>se_inbox := ms, se_worker := pr,
                                 se_outbox := se_outbox (sessions st ! n) @ out\<rparr>]\<rparr>))
           else st)
      | WorkerResumes n i \<Rightarrow>
          (if n < length (sessions st) \<and> se_alive (sessions st ! n) then
             (let (out, pr) = stream_resume cs i (se_worker (sessions st ! n))
              in st\<lparr>sessions := (sessions st)
                     [n := (sessions st ! n)\<lparr>se_worker := pr,
                            se_outbox := se_outbox (sessions st ! n) @ out\<rparr>]\<rparr>)
           else st)
      | ReplyDelivered n \<Rightarrow>
          (if n < length (sessions st) \<and> se_alive (sessions st ! n) then
             (case se_outbox (sessions st ! n) of
                [] \<Rightarrow> st
              | m # ms \<Rightarrow>
                  handleWorkerMessage n m
                    (st\<lparr>sessions := (sessions st)
                          [n := (sessions st ! n)\<lparr>se_outbox := ms\<rparr>]\<rparr>))
           else st)
      | PropsChanged p \<Rightarrow> (if mounted st then initializePlayer p (cleanup st) else st)
      | PlayerUnmounts \<Rightarrow> (if mounted st then (cleanup st)\<lparr>mounted := False\<rparr> else st))"

fun player_run ::
  "('m, 'k) subtle \<Rightarrow> player_event list \<Rightarrow> ('m, 'k) video_player \<Rightarrow> ('m, 'k) video_player" where
  "player_run cs [] st = st"
| "player_run cs (ev # evs) st = player_run cs evs (player_step cs ev st)"

text \<open>The player after the effect of its first render has run.\<close>

definition player_mount :: "player_props \<Rightarrow> ('m, 'k) video_player" where
  "player_mount p = initializePlayer p player_initial"

text \<open>
  A property of a trace: no \<open>PROCESS\<close> is posted to worker \<open>w\<close> unless \<open>INIT_SUCCESS\<close>
  was received from it earlier; the flag says whether it has been received so far.
\<close>

fun acknowledged_before_process :: "nat \<Rightarrow> bool \<Rightarrow> player_effect list \<Rightarrow> bool" where
  "acknowledged_before_process w acked [] = True"
| "acknowledged_before_process w acked (Received v SINIT_SUCCESS # es) =
     acknowledged_before_process w (acked \<or> v = w) es"
| "acknowledged_before_process w acked (Posted v (PROCESS d) # es) =
     ((if v = w then acked else True) \<and> acknowledged_before_process w acked es)"
| "acknowledged_before_process w acked (e # es) = acknowledged_before_process w acked es"

section \<open>SecureVideoPlayer.tsx: the master-key player\<close>

datatype video_status = Loading | Processing | VideoReady | VideoError

text \<open>
  Workers are numbered in the order of their creation. \<open>sp_live\<close> lists the workers that
  were created and not terminated, \<open>sp_workerRef\<close> is \<open>workerRef.current\<close>, and
  \<open>sp_posted\<close> lists the \<open>process\<close> messages posted: worker, encoded data and key.
\<close>

record secure_player =
  sp_workerRef :: "nat option"
  sp_live :: "nat list"
  sp_created :: nat
  sp_status :: video_status
  sp_error :: string
  sp_progress :: nat
  sp_posted :: "(nat \<times> bytes \<times> bytes) list"

definition secure_player_initial :: secure_player where
  "secure_player_initial =
     \<lparr>sp_workerRef = None, sp_live = [], sp_created = 0, sp_status = Loading, sp_error = [],
      sp_progress = 0, sp_posted = []\<rparr>"

text \<open>The \<open>catch\<close> of \<open>loadAndProcessVideo\<close>.\<close>

definition sp_failed :: "string \<Rightarrow> secure_player \<Rightarrow> secure_player" where
  "sp_failed m st = st\<lparr>sp_error := m, sp_status := VideoError\<rparr>"

text \<open>
  \<open>loadAndProcessVideo\<close>, given what \<open>keyStorage.getMasterKey(deviceId)\<close> and the fetch of
  the video settle to. The worker is created before either is awaited, and no path of the
  function terminates it.
\<close>

definition loadAndProcessVideo ::
  "string + bytes option \<Rightarrow> fetch_result \<Rightarrow> secure_player \<Rightarrow> secure_player" where
  "loadAndProcessVideo masterKey response st =
     (let w = sp_created st;
          st1 = st\<lparr>sp_status := Loading, sp_workerRef := Some w, sp_live := sp_live st @ [w],
                  sp_created := Suc w, sp_progress := 20\<rparr>
      in case masterKey of
           Inl e \<Rightarrow> sp_failed e st1
         | Inr None \<Rightarrow> sp_failed ''Master key not found. Please pair device first.'' st1
         | Inr (Some k) \<Rightarrow>
             (case response of
                FetchRejected m \<Rightarrow> sp_failed m (st1\<lparr>sp_progress := 40\<rparr>)
              | FetchNotOk code txt \<Rightarrow>
                  sp_failed (''Failed to fetch video: '' @ txt) (st1\<lparr>sp_progress := 40\<rparr>)
              | FetchOk encoded \<Rightarrow>
                  st1\<lparr>sp_status := Processing, sp_progress := 70,
                      sp_posted := sp_posted st1 @ [(w, encoded, k)]\<rparr>))"

text \<open>The cleanup returned by the effect: \<open>workerRef.current\<close> is terminated, not cleared.\<close>

definition effect_cleanup :: "secure_player \<Rightarrow> secure_player" where
  "effect_cleanup st =
     (case sp_workerRef st of
        None \<Rightarrow> st
      | Some w \<Rightarrow> st\<lparr>sp_live := removeAll w (sp_live st)\<rparr>)"

text \<open>
  What can happen to a mounted player: \<open>videoId\<close> or \<open>deviceId\<close> change, so that the
  cleanup of the previous effect runs and then the effect runs again; the Retry button,
  rendered while the status is \<open>error\<close>, is clicked; the component is unmounted.
\<close>

datatype sp_event =
  InputsChanged "string + bytes option" fetch_result
  | RetryClicked "string + bytes option" fetch_result
  | Unmounted

definition sp_step :: "sp_event \<Rightarrow> secure_player \<Rightarrow> secure_player" where
  "sp_step ev st =
     (case ev of
        InputsChanged k r \<Rightarrow> loadAndProcessVideo k r (effect_cleanup st)
      | RetryClicked k r \<Rightarrow>
          (if sp_status st = VideoError then loadAndProcessVideo k r st else st)
      | Unmounted \<Rightarrow> effect_cleanup st)"

fun sp_run :: "sp_event list \<Rightarrow> secure_player \<Rightarrow> secure_player" where
  "sp_run [] st = st"
| "sp_run (ev # evs) st = sp_run evs (sp_step ev st)"

definition sp_mount :: "string + bytes option \<Rightarrow> fetch_result \<Rightarrow> secure_player" where
  "sp_mount k r = loadAndProcessVideo k r secure_player_initial"

section \<open>UniversalSecurePlayer: the player with mode and key strategy\<close>

datatype video_mode = Archive | Live

datatype key_strategy = Master | Seed

text \<open>
  The props that the two effects and \<open>loadVideo\<close> read, and with them the \<open>token\<close> item
  of \<open>localStorage\<close>. The optional strings are tested for truthiness: an absent and an
  empty string both fail the test.
\<close>

record usp_props =
  usp_videoId :: "string option"
  usp_streamUrl :: "string option"
  usp_mode :: video_mode
  usp_keyStrategy :: key_strategy
  usp_deviceId :: "string option"
  usp_seedKey :: "string option"
  usp_autoPlay :: bool
  usp_token :: "string option"

definition truthy :: "string option \<Rightarrow> bool" where
  "truthy x = (case x of None \<Rightarrow> False | Some s \<Rightarrow> s \<noteq> [])"

definition text_of :: "string option \<Rightarrow> string" where
  "text_of x = (case x of None \<Rightarrow> [] | Some s \<Rightarrow> s)"

text \<open>
  A message posted to the worker, property by property, and a message received from it:
  its \<open>type\<close>, \<open>data\<close> and \<open>error\<close>. The local \<open>cryptoKey\<close> is an \<open>ArrayBuffer\<close> or a
  string.
\<close>

record usp_message =
  um_type :: string
  um_seedKey :: "string option"
  um_encodedData :: "bytes option"
  um_dataKey :: "(bytes + string) option"
  um_data :: "bytes option"

record worker_reply =
  reply_type :: string
  reply_data :: bytes
  reply_error :: string

datatype worker_kind = DataWorker | StreamWorker

datatype usp_effect =
  UWorkerCreated worker_kind
  | UPosted usp_message
  | UKeyLookup string
  | UFetchArchive string
  | UFetchLive string
  | UReceived worker_reply
  | UOnError string
  | UWorkerTerminated
  | UPlayCalled
  | USrcAssigned

text \<open>
  Where one call of \<open>loadVideo\<close> is suspended: at the lookup of the master key, at the
  promise that the first \<open>onmessage\<close> resolves, at the fetch of the archive (with the
  local \<open>cryptoKey\<close>), at the fetch of the live stream; or it has returned. And which
  \<open>onmessage\<close> the call has given its worker.
\<close>

datatype usp_phase =
  AwaitMasterKey
  | AwaitInitAck
  | AwaitArchiveFetch "bytes + string"
  | AwaitLiveFetch
  | LoadReturned

datatype usp_handler = NoHandler | AckHandler | ProcessHandler

text \<open>
  The state of the component, and of one call of \<open>loadVideo\<close> with the worker it has
  constructed.
\<close>

record usp_state =
  usp_status :: video_status
  usp_error :: string
  usp_progress :: nat
  usp_isPlaying :: bool
  usp_mounted :: bool
  usp_worker_alive :: bool
  usp_handler :: usp_handler
  usp_phase :: usp_phase
  usp_log :: "usp_effect list"

definition usp_initial :: usp_state where
  "usp_initial =
     \<lparr>usp_status = Loading, usp_error = [], usp_progress = 0, usp_isPlaying = False,
      usp_mounted = True, usp_worker_alive = False, usp_handler = NoHandler,
      usp_phase = LoadReturned, usp_log = []\<rparr>"

definition usp_set :: "(usp_state \<Rightarrow> usp_state) \<Rightarrow> usp_state \<Rightarrow> usp_state" where
  "usp_set f st = (if usp_mounted st then f st else st)"

text \<open>One failed check of the validation effect.\<close>

definition usp_invalid :: "string \<Rightarrow> usp_state \<Rightarrow> usp_state" where
  "usp_invalid m st =
     (let st1 = usp_set (\<lambda>s. s\<lparr>usp_error := m, usp_status := VideoError\<rparr>) st
      in st1\<lparr>usp_log := usp_log st1 @ [UOnError m]\<rparr>)"

text \<open>The effect under the comment \<open>Validation\<close>: four checks, one after the other.\<close>

definition usp_validation :: "usp_props \<Rightarrow> usp_state \<Rightarrow> usp_state" where
  "usp_validation p st =
     (let st1 = (if usp_mode p = Archive \<and> \<not> truthy (usp_videoId p)
                 then usp_invalid ''videoId is required for archive mode'' st else st);
          st2 = (if usp_mode p = Live \<and> \<not> truthy (usp_streamUrl p)
                 then usp_invalid ''streamUrl is required for live mode'' st1 else st1);
          st3 = (if usp_keyStrategy p = Master \<and> \<not> truthy (usp_deviceId p)
                 then usp_invalid ''deviceId is required for master key strategy'' st2 else st2)
      in if usp_keyStrategy p = Seed \<and> \<not> truthy (usp_seedKey p)
         then usp_invalid ''seedKey is required for seed key strategy'' st3 else st3)"

text \<open>The \<open>catch\<close> of \<open>loadVideo\<close>.\<close>

definition usp_fail :: "string \<Rightarrow> usp_state \<Rightarrow> usp_state" where
  "usp_fail m st =
     (let st1 = usp_set (\<lambda>s. s\<lparr>usp_error := m, usp_status := VideoError\<rparr>) st
      in st1\<lparr>usp_phase := LoadReturned, usp_log := usp_log st1 @ [UOnError m]\<rparr>)"

text \<open>The end of \<open>loadVideo\<close>, after the awaited loader has returned.\<close>

definition usp_finish :: "usp_props \<Rightarrow> usp_state \<Rightarrow> usp_state" where
  "usp_finish p st =
     (let st1 = st\<lparr>usp_phase := LoadReturned\<rparr>
      in if usp_autoPlay p \<and> usp_mounted st1
         then st1\<lparr>usp_isPlaying := True, usp_log := usp_log st1 @ [UPlayCalled]\<rparr>
         else st1)"

text \<open>
  \<open>loadArchiveVideo\<close> up to its first \<open>await\<close>. The worker is constructed before the key
  is looked at. With the seed strategy and a truthy seed, \<open>INIT\<close> is posted and the call
  waits for the promise that only \<open>INIT_SUCCESS\<close> or \<open>ready\<close> resolve.
\<close>

definition loadArchiveVideo :: "usp_props \<Rightarrow> usp_state \<Rightarrow> usp_state" where
  "loadArchiveVideo p st =
     (if \<not> truthy (usp_videoId p) then usp_finish p st
      else
        (let st1 = (usp_set (\<lambda>s. s\<lparr>usp_progress := 20\<rparr>) st)
                     \<lparr>usp_worker_alive := True, usp_handler := NoHandler,
                      usp_log := usp_log st @
                        [UWorkerCreated (if usp_keyStrategy p = Master then DataWorker
                                         else StreamWorker)]\<rparr>
         in if usp_keyStrategy p = Master \<and> truthy (usp_deviceId p) then
              st1\<lparr>usp_phase := AwaitMasterKey,
                  usp_log := usp_log st1 @ [UKeyLookup (text_of (usp_deviceId p))]\<rparr>
            else if usp_keyStrategy p = Seed \<and> truthy (usp_seedKey p) then
              st1\<lparr>usp_handler := AckHandler, usp_phase := AwaitInitAck,
                  usp_log := usp_log st1 @
                    [UPosted \<lparr>um_type = ''INIT'', um_seedKey = usp_seedKey p,
                              um_encodedData = None, um_dataKey = None, um_data = None\<rparr>]\<rparr>
            else usp_fail ''Invalid key configuration'' st1))"

text \<open>\<open>loadLiveStream\<close> up to its \<open>await\<close> of the fetch.\<close>

definition loadLiveStream :: "usp_props \<Rightarrow> usp_state \<Rightarrow> usp_state" where
  "loadLiveStream p st =
     (if \<not> truthy (usp_streamUrl p) then usp_finish p st
      else if \<not> truthy (usp_token p) then usp_fail ''Not authenticated - token required'' st
      else (usp_set (\<lambda>s. s\<lparr>usp_progress := 50\<rparr>) st)
             \<lparr>usp_phase := AwaitLiveFetch,
              usp_log := usp_log st @ [UFetchLive (text_of (usp_streamUrl p))]\<rparr>)"

definition loadVideo :: "usp_props \<Rightarrow> usp_state \<Rightarrow> usp_state" where
  "loadVideo p st =
     (let st0 = usp_set (\<lambda>s. s\<lparr>usp_status := Loading, usp_progress := 10, usp_error := []\<rparr>) st
      in if usp_mode p = Archive then loadArchiveVideo p st0 else loadLiveStream p st0)"

text \<open>The fetch of the archive is issued: by both branches of the key lookup.\<close>

definition usp_fetch_archive :: "usp_props \<Rightarrow> bytes + string \<Rightarrow> usp_state \<Rightarrow> usp_state" where
  "usp_fetch_archive p localKey st =
     (usp_set (\<lambda>s. s\<lparr>usp_progress := 40\<rparr>) st)
       \<lparr>usp_phase := AwaitArchiveFetch localKey,
        usp_log := usp_log st @ [UFetchArchive (text_of (usp_videoId p))]\<rparr>"

text \<open>\<open>keyStorage.getMasterKey(deviceId)\<close> settles.\<close>

definition usp_key_settled ::
  "usp_props \<Rightarrow> string + bytes option \<Rightarrow> usp_state \<Rightarrow> usp_state" where
  "usp_key_settled p r st =
     (if usp_phase st = AwaitMasterKey then
        (case r of
           Inl e \<Rightarrow> usp_fail e st
         | Inr None \<Rightarrow> usp_fail ''Master key not found. Please pair device first.'' st
         | Inr (Some masterKey) \<Rightarrow> usp_fetch_archive p (Inl masterKey) st)
      else st)"

text \<open>
  A message of the worker arrives. The first \<open>onmessage\<close> resolves the promise on
  \<open>INIT_SUCCESS\<close> or \<open>ready\<close> and ignores everything else; the second one shows the video
  or the error.
\<close>

definition usp_worker_replied :: "usp_props \<Rightarrow> worker_reply \<Rightarrow> usp_state \<Rightarrow> usp_state" where
  "usp_worker_replied p m st =
     (if usp_worker_alive st \<and> usp_handler st \<noteq> NoHandler then
        (let st1 = st\<lparr>usp_log := usp_log st @ [UReceived m]\<rparr>
         in case usp_handler st of
              NoHandler \<Rightarrow> st1
            | AckHandler \<Rightarrow>
                (if (reply_type m = ''INIT_SUCCESS'' \<or> reply_type m = ''ready'')
                    \<and> usp_phase st1 = AwaitInitAck
                 then usp_fetch_archive p (Inr (text_of (usp_seedKey p))) st1
                 else st1)
            | ProcessHandler \<Rightarrow>
                (if reply_type m = ''processed'' \<or> reply_type m = ''PROCESS_SUCCESS'' then
                   (let st2 = usp_set (\<lambda>s. s\<lparr>usp_progress := 90\<rparr>) st1
                    in if usp_mounted st2
                       then st2\<lparr>usp_status := VideoReady, usp_progress := 100,
                               usp_log := usp_log st2 @ [USrcAssigned]\<rparr>
                       else st2)
                 else if reply_type m = ''error'' \<or> reply_type m = ''ERROR'' then
                   usp_set (\<lambda>s. s\<lparr>usp_error := reply_error m, usp_status := VideoError\<rparr>) st1
                 else st1))
      else st)"

text \<open>
  The fetch settles. For the archive, the second \<open>onmessage\<close> is installed and the data
  is posted to the worker this call has constructed: as \<open>process\<close> with the key for the
  master strategy, as \<open>PROCESS\<close> for the seed strategy.
\<close>

definition usp_fetch_settled :: "usp_props \<Rightarrow> fetch_result \<Rightarrow> usp_state \<Rightarrow> usp_state" where
  "usp_fetch_settled p r st =
     (case usp_phase st of
        AwaitArchiveFetch localKey \<Rightarrow>
          (case r of
             FetchRejected m \<Rightarrow> usp_fail m st
           | FetchNotOk code txt \<Rightarrow> usp_fail (''Failed to fetch video: '' @ txt) st
           | FetchOk encoded \<Rightarrow>
               (let st1 = usp_set (\<lambda>s. s\<lparr>usp_progress := 60, usp_status := Processing\<rparr>) st;
                    st2 = st1\<lparr>usp_handler := ProcessHandler,
                             usp_log := usp_log st1 @
                               [UPosted
                                  \<lparr>um_type = (if usp_keyStrategy p = Master then ''process''
                                               else ''PROCESS''),
                                   um_seedKey = None,
                                   um_encodedData = Some encoded,
                                   um_dataKey = (if usp_keyStrategy p = Master
                                                 then Some localKey else None),
                                   um_data = (if usp_keyStrategy p = Seed
                                              then Some encoded else None)\<rparr>]\<rparr>
                in usp_finish p (usp_set (\<lambda>s. s\<lparr>usp_progress := 70\<rparr>) st2)))
      | AwaitLiveFetch \<Rightarrow>
          (case r of
             FetchRejected m \<Rightarrow> usp_fail m st
           | FetchNotOk code txt \<Rightarrow> usp_fail (''HTTP '' @ code @ '': '' @ txt) st
           | FetchOk blob \<Rightarrow>
               usp_finish p
                 (if usp_mounted st
                  then st\<lparr>usp_status := VideoReady, usp_progress := 100,
                          usp_log := usp_log st @ [USrcAssigned]\<rparr>
                  else st))
      | AwaitMasterKey \<Rightarrow> st
      | AwaitInitAck \<Rightarrow> st
      | LoadReturned \<Rightarrow> st)"

text \<open>The cleanup of the effect, for the worker of this call.\<close>

definition usp_cleanup :: "usp_state \<Rightarrow> usp_state" where
  "usp_cleanup st =
     (if usp_worker_alive st
      then st\<lparr>usp_worker_alive := False, usp_log := usp_log st @ [UWorkerTerminated]\<rparr>
      else st)"

datatype usp_event =
  KeySettles "string + bytes option"
  | WorkerReplies worker_reply
  | ArchiveOrLiveFetchSettles fetch_result
  | CleanupRuns
  | UspUnmounts

definition usp_step :: "usp_props \<Rightarrow> usp_event \<Rightarrow> usp_state \<Rightarrow> usp_state" where
  "usp_step p ev st =
     (case ev of
        KeySettles r \<Rightarrow> usp_key_settled p r st
      | WorkerReplies m \<Rightarrow> usp_worker_replied p m st
      | ArchiveOrLiveFetchSettles r \<Rightarrow> usp_fetch_settled p r st
      | CleanupRuns \<Rightarrow> usp_cleanup st
      | UspUnmounts \<Rightarrow> (usp_cleanup st)\<lparr>usp_mounted := False\<rparr>)"

fun usp_run :: "usp_props \<Rightarrow> usp_event list \<Rightarrow> usp_state \<Rightarrow> usp_state" where
  "usp_run p [] st = st"
| "usp_run p (ev # evs) st = usp_run p evs (usp_step p ev st)"

text \<open>The first render: the validation effect runs, then the effect that loads.\<close>

definition usp_mount :: "usp_props \<Rightarrow> usp_state" where
  "usp_mount p = loadVideo p (usp_validation p usp_initial)"

text \<open>
  The property of a trace of this player that corresponds to the one above: no message
  of type \<open>PROCESS\<close> is posted unless \<open>INIT_SUCCESS\<close> or \<open>ready\<close> was received earlier.
\<close>

definition is_ack :: "worker_reply \<Rightarrow> bool" where
  "is_ack m = (reply_type m = ''INIT_SUCCESS'' \<or> reply_type m = ''ready'')"

fun usp_acknowledged :: "bool \<Rightarrow> usp_effect list \<Rightarrow> bool" where
  "usp_acknowledged acked [] = True"
| "usp_acknowledged acked (UReceived m # es) = usp_acknowledged (acked \<or> is_ack m) es"
| "usp_acknowledged acked (UPosted m # es) =
     ((if um_type m = ''PROCESS'' then acked else True) \<and> usp_acknowledged acked es)"
| "usp_acknowledged acked (e # es) = usp_acknowledged acked es"

fun ack_seen :: "usp_effect list \<Rightarrow> bool" where
  "ack_seen [] = False"
| "ack_seen (UReceived m # es) = (is_ack m \<or> ack_seen es)"
| "ack_seen (e # es) = ack_seen es"

text \<open>
  What holds of a call of \<open>loadVideo\<close> at every moment: its trace has the property, a
  lookup of the master key is awaited only with the master strategy, and with the seed
  strategy the fetch of the archive is awaited only after the acknowledgment.
\<close>

definition usp_inv :: "usp_props \<Rightarrow> usp_state \<Rightarrow> bool" where
  "usp_inv p st =
     (usp_acknowledged False (usp_log st)
      \<and> (case usp_phase st of
            AwaitMasterKey \<Rightarrow> usp_keyStrategy p = Master
          | AwaitArchiveFetch k \<Rightarrow> usp_keyStrategy p = Master \<or> ack_seen (usp_log st)
          | _ \<Rightarrow> True))"

section \<open>The seed-strategy worker: replies\<close>

text \<open>
  Whatever the message and the state, the handler posts exactly one reply: every
  exception of the two routines ends in the \<open>catch\<close> of the handler.
\<close>

lemma crypto_onmessage_posts_one: "length (fst (crypto_onmessage cs m w)) = 1"
  by (cases m)
     (auto simp: crypto_onmessage_def split: sum.splits option.splits prod.splits)



text \<open>
  Claim C5. When the worker holds a key and AES-GCM decryption of the buffer (IV: its
  first 12 octets, ciphertext and tag: the rest) rejects, as it does when the tag does
  not verify, the handler posts exactly one message, an \<open>ERROR\<close> whose reason is the
  text \<open>Decryption failed: ... Verify seed key is correct.\<close> around the message of the
  rejection; it posts no \<open>DECRYPT_SUCCESS\<close>, so no octet of plaintext, and the failure
  leaves the handler as a value, not as an exception.
\<close>

theorem C5_authentication_failure_is_error:
  assumes "cryptoKey w = Some k"
    and "decrypt cs k (take 12 buf) (drop 12 buf) = Inl reason"
  shows "crypto_onmessage cs (DECRYPT buf) w =
           ([ERROR (''Decryption failed: '' @ reason @ ''. Verify seed key is correct.'')], w)"
  using assms
  by (simp add: crypto_onmessage_def decryptData_def crypto_error_reply_def)

theorem C5_authentication_failure_is_error_witness:
  "cryptoKey \<lparr>seedKey = None, cryptoKey = Some (replicate 32 (7 :: 8 word))\<rparr>
     = Some (replicate 32 7)
   \<and> decrypt sample_subtle (replicate 32 7) (take 12 (replicate 40 0)) (drop 12 (replicate 40 0))
     = Inl ''The operation failed for an operation-specific reason''
   \<and> crypto_onmessage sample_subtle (DECRYPT (replicate 40 0))
       \<lparr>seedKey = None, cryptoKey = Some (replicate 32 7)\<rparr> =
       ([ERROR ''Decryption failed: The operation failed for an operation-specific reason. Verify seed key is correct.''],
        \<lparr>seedKey = None, cryptoKey = Some (replicate 32 7)\<rparr>)"
proof -
  have k: "cryptoKey \<lparr>seedKey = None, cryptoKey = Some (replicate 32 (7 :: 8 word))\<rparr>
     = Some (replicate 32 7)"
    by simp
  have d: "decrypt sample_subtle (replicate 32 7) (take 12 (replicate 40 0))
      (drop 12 (replicate 40 0)) = Inl ''The operation failed for an operation-specific reason''"
    by (simp add: sample_subtle_def)
  show ?thesis
    using k d C5_authentication_failure_is_error [OF k d] by simp
qed



text \<open>
  Claim C1, as stated, fails: after a successful \<open>INIT\<close> with a seed of 39 characters
  the module variable \<open>seedKey\<close> of the worker holds that seed.
\<close>

theorem C1_seed_retained_counterexample:
  "fst (crypto_onmessage sample_subtle (INIT (Some sample_seed)) crypto_worker_initial)
     = [INIT_SUCCESS]
   \<and> seedKey (snd (crypto_onmessage sample_subtle (INIT (Some sample_seed))
         crypto_worker_initial)) = Some sample_seed
   \<and> \<not> seedKey (snd (crypto_onmessage sample_subtle (INIT (Some sample_seed))
         crypto_worker_initial)) = None"
  by (simp add: crypto_onmessage_def initializeCrypto_def seed_too_short_def sample_subtle_def
      sample_seed_def)

section \<open>The seed-strategy workers: what outlives a key derivation\<close>

text \<open>
  Along every schedule, a suspended \<open>initializeCrypto\<close> holds the seed of a valid \<open>INIT\<close>
  that was received, and the key material imported from that seed; and \<open>seedKey\<close> is
  the seed of the latest valid \<open>INIT\<close> received, since nothing else assigns it.
\<close>

lemma crypto_task_ok_mono: "S \<subseteq> T \<Longrightarrow> crypto_task_ok cs S t \<Longrightarrow> crypto_task_ok cs T t"
  by (cases t) auto

lemma valid_seeds_Cons:
  "valid_seeds (ev # evs) =
     (case ev of
        Receive (INIT (Some s)) \<Rightarrow> (if 32 \<le> length s then {s} else {})
      | _ \<Rightarrow> {}) \<union> valid_seeds evs"
  by (auto simp: valid_seeds_def split: crypto_event.splits crypto_msg.splits option.splits)

lemma not_seed_too_short: "\<not> seed_too_short x \<longleftrightarrow> (\<exists>s. x = Some s \<and> 32 \<le> length s)"
  by (cases x) (auto simp: seed_too_short_def)

lemma crypto_receive_ok:
  assumes "\<forall>t \<in> set (cw_pending pr). crypto_task_ok cs S t"
    and "crypto_receive msg pr = (out, pr')"
  shows "\<forall>t \<in> set (cw_pending pr'). crypto_task_ok cs (S \<union> valid_seeds [Receive msg]) t"
proof -
  have mono: "\<forall>t \<in> set (cw_pending pr). crypto_task_ok cs (S \<union> valid_seeds [Receive msg]) t"
    using assms(1) crypto_task_ok_mono [of S "S \<union> valid_seeds [Receive msg]"] by blast
  show ?thesis
  proof (cases msg)
    case (INIT x)
    show ?thesis
    proof (cases "seed_too_short x")
      case True
      with INIT assms(2) have "pr' = pr" by (simp add: crypto_receive_def)
      with mono show ?thesis by simp
    next
      case False
      then obtain s where x: "x = Some s" and len: "32 \<le> length s"
        using not_seed_too_short by blast
      from INIT False assms(2) x
      have "cw_pending pr' = cw_pending pr @ [AwaitImportKey s]"
        by (auto simp: crypto_receive_def)
      moreover have "s \<in> valid_seeds [Receive msg]"
        using INIT x len by (simp add: valid_seeds_def)
      ultimately show ?thesis using mono by auto
    qed
  next
    case (DECRYPT d)
    with assms(2) have "set (cw_pending pr') \<subseteq> set (cw_pending pr) \<union> {t. \<exists>k iv c. t = AwaitDecrypt k iv c}"
      by (auto simp: crypto_receive_def split: option.splits)
    with mono show ?thesis by auto
  next
    case (OtherType t)
    with assms(2) have "pr' = pr" by (simp add: crypto_receive_def)
    with mono show ?thesis by simp
  qed
qed

lemma set_others: "set (take i xs @ drop (Suc i) xs) \<subseteq> set xs"
  by (auto dest: in_set_takeD in_set_dropD)

lemma crypto_resume_ok:
  assumes "\<forall>t \<in> set (cw_pending pr). crypto_task_ok cs S t"
    and "crypto_resume cs i pr = (out, pr')"
  shows "\<forall>t \<in> set (cw_pending pr'). crypto_task_ok cs S t"
proof (cases "i < length (cw_pending pr)")
  case False
  with assms(2) have "pr' = pr" by (simp add: crypto_resume_def)
  with assms(1) show ?thesis by simp
next
  case True
  let ?others = "take i (cw_pending pr) @ drop (Suc i) (cw_pending pr)"
  have others: "\<forall>t \<in> set ?others. crypto_task_ok cs S t"
    using assms(1) set_others [of i "cw_pending pr"] by blast
  have ith: "crypto_task_ok cs S (cw_pending pr ! i)"
    using assms(1) True by simp
  show ?thesis
  proof (cases "cw_pending pr ! i")
    case (AwaitImportKey seed)
    with ith have seed: "seed \<in> S" by simp
    show ?thesis
    proof (cases "importKey cs seed")
      case (Inl e)
      with True AwaitImportKey assms(2) have "cw_pending pr' = ?others"
        by (auto simp: crypto_resume_def Let_def)
      with others show ?thesis by simp
    next
      case (Inr km)
      with True AwaitImportKey assms(2) have "cw_pending pr' = ?others @ [AwaitDeriveKey seed km]"
        by (auto simp: crypto_resume_def Let_def)
      with others seed Inr show ?thesis by auto
    qed
  next
    case (AwaitDeriveKey seed km)
    with True assms(2) have "cw_pending pr' = ?others"
      by (auto simp: crypto_resume_def Let_def split: sum.splits)
    with others show ?thesis by simp
  next
    case (AwaitDecrypt k iv c)
    with True assms(2) have "cw_pending pr' = ?others"
      by (auto simp: crypto_resume_def Let_def split: sum.splits)
    with others show ?thesis by simp
  qed
qed

lemma crypto_exec_ok:
  "\<forall>t \<in> set (cw_pending pr). crypto_task_ok cs S t \<Longrightarrow> crypto_exec cs evs pr = (out, pr')
   \<Longrightarrow> \<forall>t \<in> set (cw_pending pr'). crypto_task_ok cs (S \<union> valid_seeds evs) t"
proof (induction evs arbitrary: pr S out pr')
  case Nil
  then show ?case by (simp add: valid_seeds_def)
next
  case (Cons ev evs)
  obtain o1 p1 where step: "crypto_step cs ev pr = (o1, p1)"
    by (cases "crypto_step cs ev pr")
  obtain o2 p2 where rest: "crypto_exec cs evs p1 = (o2, p2)"
    by (cases "crypto_exec cs evs p1")
  from Cons.prems(2) step rest have p2: "pr' = p2" by simp
  have one: "\<forall>t \<in> set (cw_pending p1). crypto_task_ok cs (S \<union> valid_seeds [ev]) t"
  proof (cases ev)
    case (Receive msg)
    with step have "crypto_receive msg pr = (o1, p1)" by (simp add: crypto_step_def)
    from crypto_receive_ok [OF Cons.prems(1) this] Receive show ?thesis by simp
  next
    case (Resume i)
    with step have "crypto_resume cs i pr = (o1, p1)" by (simp add: crypto_step_def)
    from crypto_resume_ok [OF Cons.prems(1) this]
    show ?thesis
      using crypto_task_ok_mono [of S "S \<union> valid_seeds [ev]"] by blast
  qed
  have "valid_seeds (ev # evs) = valid_seeds [ev] \<union> valid_seeds evs"
    by (auto simp: valid_seeds_def)
  with Cons.IH [OF one rest] p2 show ?case
    by (simp add: Un_assoc)
qed

lemma crypto_step_seed:
  "crypto_step cs ev pr = (out, pr') \<Longrightarrow> seedKey (cw_state pr') = latest_seed (seedKey (cw_state pr)) [ev]"
proof (cases ev)
  case (Receive msg)
  assume "crypto_step cs ev pr = (out, pr')"
  with Receive show ?thesis
    by (cases msg) (auto simp: crypto_step_def crypto_receive_def split: if_splits option.splits)
next
  case (Resume i)
  assume "crypto_step cs ev pr = (out, pr')"
  with Resume show ?thesis
    by (auto simp: crypto_step_def crypto_resume_def Let_def
        split: if_splits crypto_task.splits sum.splits)
qed

lemma latest_seed_Cons: "latest_seed cur (ev # evs) = latest_seed (latest_seed cur [ev]) evs"
  by (cases ev; cases "case ev of Receive m \<Rightarrow> m") auto

lemma crypto_exec_seed:
  "crypto_exec cs evs pr = (out, pr') \<Longrightarrow> seedKey (cw_state pr') = latest_seed (seedKey (cw_state pr)) evs"
proof (induction evs arbitrary: pr out pr')
  case Nil
  then show ?case by simp
next
  case (Cons ev evs)
  obtain o1 p1 where step: "crypto_step cs ev pr = (o1, p1)"
    by (cases "crypto_step cs ev pr")
  obtain o2 p2 where rest: "crypto_exec cs evs p1 = (o2, p2)"
    by (cases "crypto_exec cs evs p1")
  from Cons.prems step rest have "pr' = p2" by simp
  with Cons.IH [OF rest] crypto_step_seed [OF step] show ?case
    by (simp add: latest_seed_Cons [of _ ev evs])
qed

lemma latest_seed_single:
  "latest_seed cur [ev] =
     (case ev of Receive (INIT x) \<Rightarrow> (if seed_too_short x then cur else x) | _ \<Rightarrow> cur)"
  by (cases ev; cases "case ev of Receive m \<Rightarrow> m") auto

lemma valid_seeds_single:
  "valid_seeds [ev] =
     (case ev of Receive (INIT x) \<Rightarrow> (if seed_too_short x then {} else {the x}) | _ \<Rightarrow> {})"
  by (auto simp: valid_seeds_def seed_too_short_def
      split: crypto_event.splits crypto_msg.splits option.splits)

lemma latest_seed_cases:
  "(\<exists>s \<in> valid_seeds evs. latest_seed cur evs = Some s)
   \<or> (valid_seeds evs = {} \<and> latest_seed cur evs = cur)"
proof (induction evs arbitrary: cur)
  case Nil
  then show ?case by (simp add: valid_seeds_def)
next
  case (Cons ev evs)
  have split: "valid_seeds (ev # evs) = valid_seeds [ev] \<union> valid_seeds evs"
    by (auto simp: valid_seeds_def)
  have unfold: "latest_seed cur (ev # evs) = latest_seed (latest_seed cur [ev]) evs"
    by (rule latest_seed_Cons)
  from Cons.IH [of "latest_seed cur [ev]"] show ?case
  proof
    assume "\<exists>s \<in> valid_seeds evs. latest_seed (latest_seed cur [ev]) evs = Some s"
    with split unfold show ?thesis by auto
  next
    assume none: "valid_seeds evs = {} \<and> latest_seed (latest_seed cur [ev]) evs = latest_seed cur [ev]"
    show ?thesis
    proof (cases "valid_seeds [ev] = {}")
      case True
      then have "latest_seed cur [ev] = cur"
        by (auto simp: latest_seed_single valid_seeds_single
            split: crypto_event.splits crypto_msg.splits if_splits)
      with none split unfold True show ?thesis by simp
    next
      case False
      then obtain s where "s \<in> valid_seeds [ev]" and "latest_seed cur [ev] = Some s"
        by (auto simp: latest_seed_single valid_seeds_single not_seed_too_short
            split: crypto_event.splits crypto_msg.splits if_splits)
      with none split unfold show ?thesis by auto
    qed
  qed
qed

lemma crypto_resume_INIT_SUCCESS:
  assumes "crypto_resume cs i pr = ([INIT_SUCCESS], pr')"
  shows "\<exists>seed km k. i < length (cw_pending pr) \<and> cw_pending pr ! i = AwaitDeriveKey seed km
           \<and> deriveKey cs ''yo3Surveillance-AES-Salt-2024'' 100000 km = Inr k
           \<and> cw_state pr' = (cw_state pr)\<lparr>cryptoKey := Some k\<rparr>"
  using assms
  by (auto simp: crypto_resume_def Let_def crypto_error_reply_def
      split: if_splits crypto_task.splits sum.splits)

lemma crypto_init_completion:
  assumes run: "crypto_exec cs evs crypto_process_initial = (out, pr)"
    and fin: "crypto_resume cs i pr = ([INIT_SUCCESS], pr')"
  shows "\<exists>seed km k s.
           i < length (cw_pending pr)
           \<and> cw_pending pr ! i = AwaitDeriveKey seed km
           \<and> seed \<in> valid_seeds evs
           \<and> importKey cs seed = Inr km
           \<and> deriveKey cs ''yo3Surveillance-AES-Salt-2024'' 100000 km = Inr k
           \<and> cryptoKey (cw_state pr') = Some k
           \<and> seedKey (cw_state pr') = Some s
           \<and> s \<in> valid_seeds evs
           \<and> latest_seed None evs = Some s"
proof -
  from crypto_resume_INIT_SUCCESS [OF fin] obtain seed km k where
    i: "i < length (cw_pending pr)" and
    task: "cw_pending pr ! i = AwaitDeriveKey seed km" and
    derive: "deriveKey cs ''yo3Surveillance-AES-Salt-2024'' 100000 km = Inr k" and
    st: "cw_state pr' = (cw_state pr)\<lparr>cryptoKey := Some k\<rparr>"
    by blast
  have "\<forall>t \<in> set (cw_pending pr). crypto_task_ok cs ({} \<union> valid_seeds evs) t"
    by (rule crypto_exec_ok [OF _ run]) (simp add: crypto_process_initial_def)
  moreover from i task have "AwaitDeriveKey seed km \<in> set (cw_pending pr)"
    by (metis nth_mem)
  ultimately have "crypto_task_ok cs ({} \<union> valid_seeds evs) (AwaitDeriveKey seed km)"
    by blast
  then have seed: "seed \<in> valid_seeds evs" and import: "importKey cs seed = Inr km"
    by simp_all
  have "seedKey (cw_state pr) = latest_seed None evs"
    using crypto_exec_seed [OF run]
    by (simp add: crypto_process_initial_def crypto_worker_initial_def)
  moreover from seed latest_seed_cases [of evs None]
  obtain s where "s \<in> valid_seeds evs" and "latest_seed None evs = Some s"
    by auto
  ultimately show ?thesis
    using i task seed import derive st by auto
qed

text \<open>
  The handler that runs from the receipt of a message to its reply, as defined first, is
  the schedule in which the two calls of the handler settle before anything else
  happens.
\<close>

lemma crypto_onmessage_uninterrupted:
  "crypto_exec cs [Receive msg, Resume 0, Resume 0] \<lparr>cw_state = w, cw_pending = []\<rparr> =
     (fst (crypto_onmessage cs msg w),
      \<lparr>cw_state = snd (crypto_onmessage cs msg w), cw_pending = []\<rparr>)"
proof (cases msg)
  case (INIT x)
  show ?thesis
  proof (cases "seed_too_short x")
    case True
    with INIT show ?thesis
      by (simp add: crypto_step_def crypto_receive_def crypto_resume_def crypto_onmessage_def
          initializeCrypto_def)
  next
    case False
    then obtain s where "x = Some s"
      using not_seed_too_short by blast
    with INIT False show ?thesis
      by (auto simp: crypto_step_def crypto_receive_def crypto_resume_def crypto_onmessage_def
          initializeCrypto_def Let_def split: sum.splits)
  qed
next
  case (DECRYPT d)
  then show ?thesis
    by (auto simp: crypto_step_def crypto_receive_def crypto_resume_def crypto_onmessage_def
        decryptData_def Let_def split: sum.splits option.splits)
next
  case (OtherType t)
  then show ?thesis
    by (simp add: crypto_step_def crypto_receive_def crypto_resume_def crypto_onmessage_def)
qed

text \<open>The same for the stream worker.\<close>

lemma stream_task_ok_mono: "S \<subseteq> T \<Longrightarrow> stream_task_ok cs S t \<Longrightarrow> stream_task_ok cs T t"
  by (cases t) auto

lemma stream_valid_seeds_Cons:
  "stream_valid_seeds (ev # evs) =
     (case ev of
        SReceive (SINIT (Some s)) \<Rightarrow> (if 32 \<le> length s then {s} else {})
      | _ \<Rightarrow> {}) \<union> stream_valid_seeds evs"
  by (auto simp: stream_valid_seeds_def split: stream_event.splits stream_msg.splits option.splits)

lemma stream_receive_ok:
  assumes "\<forall>t \<in> set (sw_pending pr). stream_task_ok cs S t"
    and "stream_receive msg pr = (out, pr')"
  shows "\<forall>t \<in> set (sw_pending pr'). stream_task_ok cs (S \<union> stream_valid_seeds [SReceive msg]) t"
proof -
  have mono: "\<forall>t \<in> set (sw_pending pr). stream_task_ok cs (S \<union> stream_valid_seeds [SReceive msg]) t"
    using assms(1) stream_task_ok_mono [of S "S \<union> stream_valid_seeds [SReceive msg]"] by blast
  show ?thesis
  proof (cases msg)
    case (SINIT x)
    show ?thesis
    proof (cases "seed_too_short x")
      case True
      with SINIT assms(2) have "pr' = pr" by (simp add: stream_receive_def)
      with mono show ?thesis by simp
    next
      case False
      then obtain s where x: "x = Some s" and len: "32 \<le> length s"
        using not_seed_too_short by blast
      from SINIT False assms(2) x
      have "sw_pending pr' = sw_pending pr @ [SAwaitImportKey s]"
        by (auto simp: stream_receive_def)
      moreover have "s \<in> stream_valid_seeds [SReceive msg]"
        using SINIT x len by (simp add: stream_valid_seeds_def)
      ultimately show ?thesis using mono by auto
    qed
  next
    case (PROCESS d)
    with assms(2) have "set (sw_pending pr') \<subseteq> set (sw_pending pr) \<union> {t. \<exists>k iv c. t = SAwaitDecrypt k iv c}"
      by (auto simp: stream_receive_def split: option.splits)
    with mono show ?thesis by auto
  next
    case (SOtherType t)
    with assms(2) have "pr' = pr" by (simp add: stream_receive_def)
    with mono show ?thesis by simp
  qed
qed

lemma stream_resume_ok:
  assumes "\<forall>t \<in> set (sw_pending pr). stream_task_ok cs S t"
    and "stream_resume cs i pr = (out, pr')"
  shows "\<forall>t \<in> set (sw_pending pr'). stream_task_ok cs S t"
proof (cases "i < length (sw_pending pr)")
  case False
  with assms(2) have "pr' = pr" by (simp add: stream_resume_def)
  with assms(1) show ?thesis by simp
next
  case True
  let ?others = "take i (sw_pending pr) @ drop (Suc i) (sw_pending pr)"
  have others: "\<forall>t \<in> set ?others. stream_task_ok cs S t"
    using assms(1) set_others [of i "sw_pending pr"] by blast
  have ith: "stream_task_ok cs S (sw_pending pr ! i)"
    using assms(1) True by simp
  show ?thesis
  proof (cases "sw_pending pr ! i")
    case (SAwaitImportKey seed)
    with ith have seed: "seed \<in> S" by simp
    show ?thesis
    proof (cases "importKey cs seed")
      case (Inl e)
      with True SAwaitImportKey assms(2) have "sw_pending pr' = ?others"
        by (auto simp: stream_resume_def Let_def)
      with others show ?thesis by simp
    next
      case (Inr km)
      with True SAwaitImportKey assms(2) have "sw_pending pr' = ?others @ [SAwaitDeriveKey seed km]"
        by (auto simp: stream_resume_def Let_def)
      with others seed Inr show ?thesis by auto
    qed
  next
    case (SAwaitDeriveKey seed km)
    with True assms(2) have "sw_pending pr' = ?others"
      by (auto simp: stream_resume_def Let_def split: sum.splits)
    with others show ?thesis by simp
  next
    case (SAwaitDecrypt k iv c)
    with True assms(2) have "sw_pending pr' = ?others"
      by (auto simp: stream_resume_def Let_def split: sum.splits)
    with others show ?thesis by simp
  qed
qed

lemma stream_exec_ok:
  "\<forall>t \<in> set (sw_pending pr). stream_task_ok cs S t \<Longrightarrow> stream_exec cs evs pr = (out, pr')
   \<Longrightarrow> \<forall>t \<in> set (sw_pending pr'). stream_task_ok cs (S \<union> stream_valid_seeds evs) t"
proof (induction evs arbitrary: pr S out pr')
  case Nil
  then show ?case by (simp add: stream_valid_seeds_def)
next
  case (Cons ev evs)
  obtain o1 p1 where step: "stream_step cs ev pr = (o1, p1)"
    by (cases "stream_step cs ev pr")
  obtain o2 p2 where rest: "stream_exec cs evs p1 = (o2, p2)"
    by (cases "stream_exec cs evs p1")
  from Cons.prems(2) step rest have p2: "pr' = p2" by simp
  have one: "\<forall>t \<in> set (sw_pending p1). stream_task_ok cs (S \<union> stream_valid_seeds [ev]) t"
  proof (cases ev)
    case (SReceive msg)
    with step have "stream_receive msg pr = (o1, p1)" by (simp add: stream_step_def)
    from stream_receive_ok [OF Cons.prems(1) this] SReceive show ?thesis by simp
  next
    case (SResume i)
    with step have "stream_resume cs i pr = (o1, p1)" by (simp add: stream_step_def)
    from stream_resume_ok [OF Cons.prems(1) this]
    show ?thesis
      using stream_task_ok_mono [of S "S \<union> stream_valid_seeds [ev]"] by blast
  qed
  have "stream_valid_seeds (ev # evs) = stream_valid_seeds [ev] \<union> stream_valid_seeds evs"
    by (auto simp: stream_valid_seeds_def)
  with Cons.IH [OF one rest] p2 show ?case
    by (simp add: Un_assoc)
qed

lemma stream_step_seed:
  "stream_step cs ev pr = (out, pr') \<Longrightarrow> streamSeedKey (sw_state pr') = stream_latest_seed (streamSeedKey (sw_state pr)) [ev]"
proof (cases ev)
  case (SReceive msg)
  assume "stream_step cs ev pr = (out, pr')"
  with SReceive show ?thesis
    by (cases msg) (auto simp: stream_step_def stream_receive_def split: if_splits option.splits)
next
  case (SResume i)
  assume "stream_step cs ev pr = (out, pr')"
  with SResume show ?thesis
    by (auto simp: stream_step_def stream_resume_def Let_def
        split: if_splits stream_task.splits sum.splits)
qed

lemma stream_latest_seed_Cons: "stream_latest_seed cur (ev # evs) = stream_latest_seed (stream_latest_seed cur [ev]) evs"
  by (cases ev; cases "case ev of SReceive m \<Rightarrow> m") auto

lemma stream_exec_seed:
  "stream_exec cs evs pr = (out, pr') \<Longrightarrow> streamSeedKey (sw_state pr') = stream_latest_seed (streamSeedKey (sw_state pr)) evs"
proof (induction evs arbitrary: pr out pr')
  case Nil
  then show ?case by simp
next
  case (Cons ev evs)
  obtain o1 p1 where step: "stream_step cs ev pr = (o1, p1)"
    by (cases "stream_step cs ev pr")
  obtain o2 p2 where rest: "stream_exec cs evs p1 = (o2, p2)"
    by (cases "stream_exec cs evs p1")
  from Cons.prems step rest have "pr' = p2" by simp
  with Cons.IH [OF rest] stream_step_seed [OF step] show ?case
    by (simp add: stream_latest_seed_Cons [of _ ev evs])
qed

lemma stream_latest_seed_single:
  "stream_latest_seed cur [ev] =
     (case ev of SReceive (SINIT x) \<Rightarrow> (if seed_too_short x then cur else x) | _ \<Rightarrow> cur)"
  by (cases ev; cases "case ev of SReceive m \<Rightarrow> m") auto

lemma stream_valid_seeds_single:
  "stream_valid_seeds [ev] =
     (case ev of SReceive (SINIT x) \<Rightarrow> (if seed_too_short x then {} else {the x}) | _ \<Rightarrow> {})"
  by (auto simp: stream_valid_seeds_def seed_too_short_def
      split: stream_event.splits stream_msg.splits option.splits)

lemma stream_latest_seed_cases:
  "(\<exists>s \<in> stream_valid_seeds evs. stream_latest_seed cur evs = Some s)
   \<or> (stream_valid_seeds evs = {} \<and> stream_latest_seed cur evs = cur)"
proof (induction evs arbitrary: cur)
  case Nil
  then show ?case by (simp add: stream_valid_seeds_def)
next
  case (Cons ev evs)
  have split: "stream_valid_seeds (ev # evs) = stream_valid_seeds [ev] \<union> stream_valid_seeds evs"
    by (auto simp: stream_valid_seeds_def)
  have unfold: "stream_latest_seed cur (ev # evs) = stream_latest_seed (stream_latest_seed cur [ev]) evs"
    by (rule stream_latest_seed_Cons)
  from Cons.IH [of "stream_latest_seed cur [ev]"] show ?case
  proof
    assume "\<exists>s \<in> stream_valid_seeds evs. stream_latest_seed (stream_latest_seed cur [ev]) evs = Some s"
    with split unfold show ?thesis by auto
  next
    assume none: "stream_valid_seeds evs = {} \<and> stream_latest_seed (stream_latest_seed cur [ev]) evs = stream_latest_seed cur [ev]"
    show ?thesis
    proof (cases "stream_valid_seeds [ev] = {}")
      case True
      then have "stream_latest_seed cur [ev] = cur"
        by (auto simp: stream_latest_seed_single stream_valid_seeds_single
            split: stream_event.splits stream_msg.splits if_splits)
      with none split unfold True show ?thesis by simp
    next
      case False
      then obtain s where "s \<in> stream_valid_seeds [ev]" and "stream_latest_seed cur [ev] = Some s"
        by (auto simp: stream_latest_seed_single stream_valid_seeds_single not_seed_too_short
            split: stream_event.splits stream_msg.splits if_splits)
      with none split unfold show ?thesis by auto
    qed
  qed
qed

lemma stream_resume_INIT_SUCCESS:
  assumes "stream_resume cs i pr = ([SINIT_SUCCESS], pr')"
  shows "\<exists>seed km k. i < length (sw_pending pr) \<and> sw_pending pr ! i = SAwaitDeriveKey seed km
           \<and> deriveKey cs ''yo3Surveillance-Stream-Salt-2024'' 100000 km = Inr k
           \<and> sw_state pr' = (sw_state pr)\<lparr>processorKey := Some k\<rparr>"
  using assms
  by (auto simp: stream_resume_def Let_def stream_error_reply_def
      split: if_splits stream_task.splits sum.splits)

lemma stream_init_completion:
  assumes run: "stream_exec cs evs stream_process_initial = (out, pr)"
    and fin: "stream_resume cs i pr = ([SINIT_SUCCESS], pr')"
  shows "\<exists>seed km k s.
           i < length (sw_pending pr)
           \<and> sw_pending pr ! i = SAwaitDeriveKey seed km
           \<and> seed \<in> stream_valid_seeds evs
           \<and> importKey cs seed = Inr km
           \<and> deriveKey cs ''yo3Surveillance-Stream-Salt-2024'' 100000 km = Inr k
           \<and> processorKey (sw_state pr') = Some k
           \<and> streamSeedKey (sw_state pr') = Some s
           \<and> s \<in> stream_valid_seeds evs
           \<and> stream_latest_seed None evs = Some s"
proof -
  from stream_resume_INIT_SUCCESS [OF fin] obtain seed km k where
    i: "i < length (sw_pending pr)" and
    task: "sw_pending pr ! i = SAwaitDeriveKey seed km" and
    derive: "deriveKey cs ''yo3Surveillance-Stream-Salt-2024'' 100000 km = Inr k" and
    st: "sw_state pr' = (sw_state pr)\<lparr>processorKey := Some k\<rparr>"
    by blast
  have "\<forall>t \<in> set (sw_pending pr). stream_task_ok cs ({} \<union> stream_valid_seeds evs) t"
    by (rule stream_exec_ok [OF _ run]) (simp add: stream_process_initial_def)
  moreover from i task have "SAwaitDeriveKey seed km \<in> set (sw_pending pr)"
    by (metis nth_mem)
  ultimately have "stream_task_ok cs ({} \<union> stream_valid_seeds evs) (SAwaitDeriveKey seed km)"
    by blast
  then have seed: "seed \<in> stream_valid_seeds evs" and import: "importKey cs seed = Inr km"
    by simp_all
  have "streamSeedKey (sw_state pr) = stream_latest_seed None evs"
    using stream_exec_seed [OF run]
    by (simp add: stream_process_initial_def stream_worker_initial_def)
  moreover from seed stream_latest_seed_cases [of evs None]
  obtain s where "s \<in> stream_valid_seeds evs" and "stream_latest_seed None evs = Some s"
    by auto
  ultimately show ?thesis
    using i task seed import derive st by auto
qed

text \<open>
  Claim C1, amended. In each of the two workers, on every schedule of messages and
  settling calls: when the key derivation of an \<open>INIT\<close> completes, so that
  \<open>INIT_SUCCESS\<close> is posted, that \<open>INIT\<close> had a seed of at least 32 characters, the
  worker holds the key derived from that seed (PBKDF2 with the worker's salt and 100000
  iterations), and it also holds a seed string of at least 32 characters: the seed of
  the latest such \<open>INIT\<close> it has received. That is the seed of the completed \<open>INIT\<close>
  itself unless a later one was received while the derivation was pending. The seed is
  retained beyond the derivation.
\<close>

theorem C1_seed_outlives_derivation:
  "(crypto_exec cs evs crypto_process_initial = (out, pr) \<longrightarrow>
    crypto_resume cs i pr = ([INIT_SUCCESS], pr') \<longrightarrow>
      (\<exists>seed km k s.
         i < length (cw_pending pr)
         \<and> cw_pending pr ! i = AwaitDeriveKey seed km
         \<and> seed \<in> valid_seeds evs
         \<and> importKey cs seed = Inr km
         \<and> deriveKey cs ''yo3Surveillance-AES-Salt-2024'' 100000 km = Inr k
         \<and> cryptoKey (cw_state pr') = Some k
         \<and> seedKey (cw_state pr') = Some s
         \<and> s \<in> valid_seeds evs
         \<and> latest_seed None evs = Some s))
   \<and> (stream_exec cs sevs stream_process_initial = (sout, spr) \<longrightarrow>
      stream_resume cs j spr = ([SINIT_SUCCESS], spr') \<longrightarrow>
      (\<exists>seed km k s.
         j < length (sw_pending spr)
         \<and> sw_pending spr ! j = SAwaitDeriveKey seed km
         \<and> seed \<in> stream_valid_seeds sevs
         \<and> importKey cs seed = Inr km
         \<and> deriveKey cs ''yo3Surveillance-Stream-Salt-2024'' 100000 km = Inr k
         \<and> processorKey (sw_state spr') = Some k
         \<and> streamSeedKey (sw_state spr') = Some s
         \<and> s \<in> stream_valid_seeds sevs
         \<and> stream_latest_seed None sevs = Some s))"
  using crypto_init_completion [of cs evs out pr i pr']
    stream_init_completion [of cs sevs sout spr j spr']
  by blast

theorem C1_seed_outlives_derivation_witness:
  "crypto_exec sample_subtle
       [Receive (INIT (Some sample_seed)), Receive (INIT (Some sample_seed_2)),
        Resume 0, Resume 0]
       crypto_process_initial =
     ([], (\<lparr>cw_state = \<lparr>seedKey = Some sample_seed_2, cryptoKey = None\<rparr>,
         cw_pending = [AwaitDeriveKey sample_seed sample_seed,
                       AwaitDeriveKey sample_seed_2 sample_seed_2]\<rparr>
          :: (string, bytes) crypto_process))
   \<and> crypto_resume sample_subtle 0
       (\<lparr>cw_state = \<lparr>seedKey = Some sample_seed_2, cryptoKey = None\<rparr>,
         cw_pending = [AwaitDeriveKey sample_seed sample_seed,
                       AwaitDeriveKey sample_seed_2 sample_seed_2]\<rparr>
          :: (string, bytes) crypto_process) =
     ([INIT_SUCCESS],
      (\<lparr>cw_state = \<lparr>seedKey = Some sample_seed_2,
                     cryptoKey = Some (map (\<lambda>c. of_nat (of_char c))
                       (''yo3Surveillance-AES-Salt-2024'' @ sample_seed))\<rparr>,
         cw_pending = [AwaitDeriveKey sample_seed_2 sample_seed_2]\<rparr>
          :: (string, bytes) crypto_process))
   \<and> (\<exists>seed km k s.
         0 < length (cw_pending
           (\<lparr>cw_state = \<lparr>seedKey = Some sample_seed_2, cryptoKey = None\<rparr>,
         cw_pending = [AwaitDeriveKey sample_seed sample_seed,
                       AwaitDeriveKey sample_seed_2 sample_seed_2]\<rparr>
          :: (string, bytes) crypto_process))
         \<and> cw_pending
           (\<lparr>cw_state = \<lparr>seedKey = Some sample_seed_2, cryptoKey = None\<rparr>,
         cw_pending = [AwaitDeriveKey sample_seed sample_seed,
                       AwaitDeriveKey sample_seed_2 sample_seed_2]\<rparr>
          :: (string, bytes) crypto_process) ! 0 = AwaitDeriveKey seed km
         \<and> seed \<in> valid_seeds
           [Receive (INIT (Some sample_seed)), Receive (INIT (Some sample_seed_2)),
        Resume 0, Resume 0]
         \<and> importKey sample_subtle seed = Inr km
         \<and> deriveKey sample_subtle ''yo3Surveillance-AES-Salt-2024'' 100000 km = Inr k
         \<and> cryptoKey (cw_state
           (\<lparr>cw_state = \<lparr>seedKey = Some sample_seed_2,
                     cryptoKey = Some (map (\<lambda>c. of_nat (of_char c))
                       (''yo3Surveillance-AES-Salt-2024'' @ sample_seed))\<rparr>,
         cw_pending = [AwaitDeriveKey sample_seed_2 sample_seed_2]\<rparr>
          :: (string, bytes) crypto_process)) = Some k
         \<and> seedKey (cw_state
           (\<lparr>cw_state = \<lparr>seedKey = Some sample_seed_2,
                     cryptoKey = Some (map (\<lambda>c. of_nat (of_char c))
                       (''yo3Surveillance-AES-Salt-2024'' @ sample_seed))\<rparr>,
         cw_pending = [AwaitDeriveKey sample_seed_2 sample_seed_2]\<rparr>
          :: (string, bytes) crypto_process)) = Some s
         \<and> s \<in> valid_seeds
           [Receive (INIT (Some sample_seed)), Receive (INIT (Some sample_seed_2)),
        Resume 0, Resume 0]
         \<and> latest_seed None
           [Receive (INIT (Some sample_seed)), Receive (INIT (Some sample_seed_2)),
        Resume 0, Resume 0] = Some s)
   \<and> stream_exec sample_subtle [SReceive (SINIT (Some sample_seed)), SResume 0]
       stream_process_initial =
     ([], (\<lparr>sw_state = \<lparr>streamSeedKey = Some sample_seed, processorKey = None\<rparr>,
         sw_pending = [SAwaitDeriveKey sample_seed sample_seed]\<rparr>
          :: (string, bytes) stream_process))
   \<and> stream_resume sample_subtle 0
       (\<lparr>sw_state = \<lparr>streamSeedKey = Some sample_seed, processorKey = None\<rparr>,
         sw_pending = [SAwaitDeriveKey sample_seed sample_seed]\<rparr>
          :: (string, bytes) stream_process) =
     ([SINIT_SUCCESS],
      (\<lparr>sw_state = \<lparr>streamSeedKey = Some sample_seed,
                     processorKey = Some (map (\<lambda>c. of_nat (of_char c))
                       (''yo3Surveillance-Stream-Salt-2024'' @ sample_seed))\<rparr>,
         sw_pending = []\<rparr>
          :: (string, bytes) stream_process))
   \<and> (\<exists>seed km k s.
         0 < length (sw_pending
           (\<lparr>sw_state = \<lparr>streamSeedKey = Some sample_seed, processorKey = None\<rparr>,
         sw_pending = [SAwaitDeriveKey sample_seed sample_seed]\<rparr>
          :: (string, bytes) stream_process))
         \<and> sw_pending
           (\<lparr>sw_state = \<lparr>streamSeedKey = Some sample_seed, processorKey = None\<rparr>,
         sw_pending = [SAwaitDeriveKey sample_seed sample_seed]\<rparr>
          :: (string, bytes) stream_process) ! 0 = SAwaitDeriveKey seed km
         \<and> seed \<in> stream_valid_seeds [SReceive (SINIT (Some sample_seed)), SResume 0]
         \<and> importKey sample_subtle seed = Inr km
         \<and> deriveKey sample_subtle ''yo3Surveillance-Stream-Salt-2024'' 100000 km = Inr k
         \<and> processorKey (sw_state
           (\<lparr>sw_state = \<lparr>streamSeedKey = Some sample_seed,
                     processorKey = Some (map (\<lambda>c. of_nat (of_char c))
                       (''yo3Surveillance-Stream-Salt-2024'' @ sample_seed))\<rparr>,
         sw_pending = []\<rparr>
          :: (string, bytes) stream_process)) = Some k
         \<and> streamSeedKey (sw_state
           (\<lparr>sw_state = \<lparr>streamSeedKey = Some sample_seed,
                     processorKey = Some (map (\<lambda>c. of_nat (of_char c))
                       (''yo3Surveillance-Stream-Salt-2024'' @ sample_seed))\<rparr>,
         sw_pending = []\<rparr>
          :: (string, bytes) stream_process)) = Some s
         \<and> s \<in> stream_valid_seeds [SReceive (SINIT (Some sample_seed)), SResume 0]
         \<and> stream_latest_seed None [SReceive (SINIT (Some sample_seed)), SResume 0] = Some s)"
proof -
  have run: "crypto_exec sample_subtle
       [Receive (INIT (Some sample_seed)), Receive (INIT (Some sample_seed_2)),
        Resume 0, Resume 0]
       crypto_process_initial =
     ([], (\<lparr>cw_state = \<lparr>seedKey = Some sample_seed_2, cryptoKey = None\<rparr>,
         cw_pending = [AwaitDeriveKey sample_seed sample_seed,
                       AwaitDeriveKey sample_seed_2 sample_seed_2]\<rparr>
          :: (string, bytes) crypto_process))"
    by (simp add: crypto_step_def crypto_receive_def crypto_resume_def seed_too_short_def
        crypto_process_initial_def crypto_worker_initial_def sample_subtle_def sample_seed_def
        sample_seed_2_def)
  have fin: "crypto_resume sample_subtle 0
       (\<lparr>cw_state = \<lparr>seedKey = Some sample_seed_2, cryptoKey = None\<rparr>,
         cw_pending = [AwaitDeriveKey sample_seed sample_seed,
                       AwaitDeriveKey sample_seed_2 sample_seed_2]\<rparr>
          :: (string, bytes) crypto_process) =
     ([INIT_SUCCESS],
      (\<lparr>cw_state = \<lparr>seedKey = Some sample_seed_2,
                     cryptoKey = Some (map (\<lambda>c. of_nat (of_char c))
                       (''yo3Surveillance-AES-Salt-2024'' @ sample_seed))\<rparr>,
         cw_pending = [AwaitDeriveKey sample_seed_2 sample_seed_2]\<rparr>
          :: (string, bytes) crypto_process))"
    by (simp add: crypto_resume_def sample_subtle_def)
  have srun: "stream_exec sample_subtle [SReceive (SINIT (Some sample_seed)), SResume 0]
       stream_process_initial =
     ([], (\<lparr>sw_state = \<lparr>streamSeedKey = Some sample_seed, processorKey = None\<rparr>,
         sw_pending = [SAwaitDeriveKey sample_seed sample_seed]\<rparr>
          :: (string, bytes) stream_process))"
    by (simp add: stream_step_def stream_receive_def stream_resume_def seed_too_short_def
        stream_process_initial_def stream_worker_initial_def sample_subtle_def sample_seed_def)
  have sfin: "stream_resume sample_subtle 0
       (\<lparr>sw_state = \<lparr>streamSeedKey = Some sample_seed, processorKey = None\<rparr>,
         sw_pending = [SAwaitDeriveKey sample_seed sample_seed]\<rparr>
          :: (string, bytes) stream_process) =
     ([SINIT_SUCCESS],
      (\<lparr>sw_state = \<lparr>streamSeedKey = Some sample_seed,
                     processorKey = Some (map (\<lambda>c. of_nat (of_char c))
                       (''yo3Surveillance-Stream-Salt-2024'' @ sample_seed))\<rparr>,
         sw_pending = []\<rparr>
          :: (string, bytes) stream_process))"
    by (simp add: stream_resume_def sample_subtle_def)
  note both = C1_seed_outlives_derivation [of sample_subtle _ "[]" _ 0 _ _ "[]" _ 0 _]
  note c = both [THEN conjunct1, rule_format, OF run fin]
  note d = both [THEN conjunct2, rule_format, OF srun sfin]
  from run fin c srun sfin d show ?thesis
    by (intro conjI) assumption+
qed

section \<open>The master-key data worker: replies\<close>

text \<open>
  Claim C10. The handler of the data worker posts a reply if and only if the type of the
  message is \<open>init\<close>, or it is \<open>process\<close> and both \<open>encodedData\<close> and \<open>dataKey\<close> are
  present. So a \<open>process\<close> message that lacks either, and a message of any other type,
  is answered by nothing at all, neither \<open>processed\<close> nor \<open>error\<close>.
\<close>

theorem C10_reply_iff_complete_request:
  "(fst (data_onmessage rs now e cfg) \<noteq> []) =
     (msg_type e = ''init''
      \<or> (msg_type e = ''process'' \<and> encodedData e \<noteq> None \<and> dataKey e \<noteq> None))"
  by (auto simp: data_onmessage_def split: sum.splits thrown.splits)

theorem C10_reply_iff_complete_request_witness:
  "fst (data_onmessage sample_raw_subtle 0
      \<lparr>msg_type = ''process'', encodedData = Some [1, 2, 3], dataKey = None, config = None\<rparr>
      default_config) = []
   \<and> fst (data_onmessage sample_raw_subtle 0
      \<lparr>msg_type = ''process'', encodedData = None, dataKey = Some [1, 2, 3], config = None\<rparr>
      default_config) = []
   \<and> fst (data_onmessage sample_raw_subtle 0
      \<lparr>msg_type = ''PROCESS'', encodedData = Some [1], dataKey = Some [2], config = None\<rparr>
      default_config) = []
   \<and> fst (data_onmessage sample_raw_subtle 0
      \<lparr>msg_type = ''process'', encodedData = Some [1], dataKey = Some [2], config = None\<rparr>
      default_config) \<noteq> []
   \<and> fst (data_onmessage sample_raw_subtle 0
      \<lparr>msg_type = ''init'', encodedData = None, dataKey = None, config = None\<rparr>
      default_config) \<noteq> []"
  using C10_reply_iff_complete_request [of sample_raw_subtle 0
      "\<lparr>msg_type = ''process'', encodedData = Some [1, 2, 3], dataKey = None, config = None\<rparr>"
      default_config]
    C10_reply_iff_complete_request [of sample_raw_subtle 0
      "\<lparr>msg_type = ''process'', encodedData = None, dataKey = Some [1, 2, 3], config = None\<rparr>"
      default_config]
    C10_reply_iff_complete_request [of sample_raw_subtle 0
      "\<lparr>msg_type = ''PROCESS'', encodedData = Some [1], dataKey = Some [2], config = None\<rparr>"
      default_config]
    C10_reply_iff_complete_request [of sample_raw_subtle 0
      "\<lparr>msg_type = ''process'', encodedData = Some [1], dataKey = Some [2], config = None\<rparr>"
      default_config]
    C10_reply_iff_complete_request [of sample_raw_subtle 0
      "\<lparr>msg_type = ''init'', encodedData = None, dataKey = None, config = None\<rparr>"
      default_config]
  by simp

section \<open>The key store: put, get, delete\<close>

lemma ensure_db_open: "ensure_db f s = (Inr u, s1) \<Longrightarrow> db_open s1 \<and> objects s1 = objects s"
  by (auto simp: ensure_db_def initialize_def split: if_splits option.splits)

lemma ensure_db_when_open: "db_open s \<Longrightarrow> ensure_db f s = (Inr (), s)"
  by (simp add: ensure_db_def)

text \<open>
  Claim C6. For every device identifier and every key, when \<open>storeMasterKey\<close> has
  resolved, a \<open>getMasterKey\<close> of the same identifier whose request IndexedDB serves
  resolves to exactly the octets that were stored.
\<close>

theorem C6_put_then_get:
  assumes "storeMasterKey kd deviceId now f s = (Inr (), s')"
    and "request_error g = None"
  shows "getMasterKey deviceId g s' = (Inr (Some kd), s')"
proof -
  from assms(1) obtain s1 where
    e: "ensure_db f s = (Inr (), s1)" and
    s': "s' = s1\<lparr>objects := (objects s1)(master_key_id deviceId \<mapsto>
           \<lparr>rec_id = master_key_id deviceId, keyData = kd, createdAt = now\<rparr>)\<rparr>"
    by (auto simp: storeMasterKey_def split: prod.splits sum.splits option.splits)
  from ensure_db_open [OF e] s' have "db_open s'"
    by simp
  then have "ensure_db g s' = (Inr (), s')"
    by (rule ensure_db_when_open)
  with assms(2) s' show ?thesis
    by (simp add: getMasterKey_def)
qed

theorem C6_put_then_get_witness:
  "storeMasterKey [222, 173, 190, 239] ''camera-1'' 1700000000000 no_faults key_storage_initial
     = (Inr (), \<lparr>db_open = True, objects = [''master-key-camera-1'' \<mapsto>
          \<lparr>rec_id = ''master-key-camera-1'', keyData = [222, 173, 190, 239],
           createdAt = 1700000000000\<rparr>]\<rparr>)
   \<and> request_error no_faults = None
   \<and> getMasterKey ''camera-1'' no_faults
       \<lparr>db_open = True, objects = [''master-key-camera-1'' \<mapsto>
          \<lparr>rec_id = ''master-key-camera-1'', keyData = [222, 173, 190, 239],
           createdAt = 1700000000000\<rparr>]\<rparr>
     = (Inr (Some [222, 173, 190, 239]),
        \<lparr>db_open = True, objects = [''master-key-camera-1'' \<mapsto>
          \<lparr>rec_id = ''master-key-camera-1'', keyData = [222, 173, 190, 239],
           createdAt = 1700000000000\<rparr>]\<rparr>)"
proof -
  have put: "storeMasterKey [222, 173, 190, 239] ''camera-1'' 1700000000000 no_faults
      key_storage_initial
     = (Inr (), \<lparr>db_open = True, objects = [''master-key-camera-1'' \<mapsto>
          \<lparr>rec_id = ''master-key-camera-1'', keyData = [222, 173, 190, 239],
           createdAt = 1700000000000\<rparr>]\<rparr>)"
    by (simp add: storeMasterKey_def ensure_db_def initialize_def no_faults_def
        key_storage_initial_def master_key_id_def)
  have req: "request_error no_faults = None"
    by (simp add: no_faults_def)
  show ?thesis
    using put req C6_put_then_get [OF put req] by simp
qed

text \<open>
  Claim C7. While IndexedDB serves the requests, \<open>deleteMasterKey\<close> resolves from every
  state of the store, whether or not the identifier is stored; a \<open>getMasterKey\<close> of the
  same identifier then resolves to \<open>null\<close>; a second \<open>deleteMasterKey\<close> resolves as
  well, and the key is still absent after it.
\<close>

theorem C7_delete_then_get:
  assumes "open_error f = None" and "request_error f = None"
  shows "fst (deleteMasterKey deviceId f s) = Inr ()
       \<and> fst (getMasterKey deviceId f (snd (deleteMasterKey deviceId f s))) = Inr None
       \<and> fst (deleteMasterKey deviceId f (snd (deleteMasterKey deviceId f s))) = Inr ()
       \<and> fst (getMasterKey deviceId f
            (snd (deleteMasterKey deviceId f (snd (deleteMasterKey deviceId f s))))) = Inr None"
  using assms
  by (simp add: deleteMasterKey_def getMasterKey_def ensure_db_def initialize_def)

theorem C7_delete_then_get_witness:
  "open_error no_faults = None \<and> request_error no_faults = None
   \<and> fst (deleteMasterKey ''camera-1'' no_faults key_storage_initial) = Inr ()
   \<and> fst (getMasterKey ''camera-1'' no_faults
        (snd (deleteMasterKey ''camera-1'' no_faults key_storage_initial))) = Inr None
   \<and> fst (deleteMasterKey ''camera-1'' no_faults
        (snd (deleteMasterKey ''camera-1'' no_faults key_storage_initial))) = Inr ()"
proof -
  have o: "open_error no_faults = None" and r: "request_error no_faults = None"
    by (simp_all add: no_faults_def)
  show ?thesis
    using o r C7_delete_then_get [OF o r, of "''camera-1''" key_storage_initial] by simp
qed

section \<open>The seed-strategy player: validation, and the order of INIT and PROCESS\<close>

text \<open>
  Claim C2, evaluated where the code departs from it. Mounted with the empty seed, the
  player constructs worker 0, posts \<open>INIT\<close> with that seed and issues the fetch, and
  its error is unset: nothing is checked before the worker and the request. The error
  comes later and from the worker: once the worker has received the message and its
  reply has reached the player, the trace ends with the \<open>ERROR\<close>
  \<open>Seed key must be at least 32 characters\<close> and the call of the error callback.
\<close>

theorem C2_video_player_starts_without_validation:
  "player_log (player_mount
       \<lparr>streamUrl = ''/api/stream/1'', seedKeyProp = [], autoplay = False\<rparr>
         :: (string, bytes) video_player) =
     [WorkerCreated 0, Posted 0 (SINIT (Some [])), FetchIssued ''/api/stream/1'']
   \<and> player_error (player_mount
       \<lparr>streamUrl = ''/api/stream/1'', seedKeyProp = [], autoplay = False\<rparr>
         :: (string, bytes) video_player) = None
   \<and> player_log (player_run sample_subtle [WorkerReceives 0, ReplyDelivered 0]
        (player_mount \<lparr>streamUrl = ''/api/stream/1'', seedKeyProp = [], autoplay = False\<rparr>)) =
     [WorkerCreated 0, Posted 0 (SINIT (Some [])), FetchIssued ''/api/stream/1'',
      Received 0 (SERROR ''Seed key must be at least 32 characters''),
      OnError ''Seed key must be at least 32 characters'']"
  by (simp add: player_mount_def initializePlayer_def player_initial_def set_state_def
      post_message_def player_step_def stream_receive_def stream_error_reply_def
      seed_too_short_def handleWorkerMessage_def stream_process_initial_def
      stream_worker_initial_def Let_def)

text \<open>
  Claim C3, evaluated where the code departs from it. Mounted with a valid seed, the
  player posts \<open>PROCESS\<close> to worker 0 as soon as the fetch has settled, with no
  \<open>INIT_SUCCESS\<close> received: the trace does not have the property. When the worker then
  receives both messages before its key derivation has completed, it answers \<open>PROCESS\<close>
  with the \<open>ERROR\<close> \<open>Processor key not initialized. Call INIT first.\<close>, which the
  player reports through the error callback, and \<open>INIT_SUCCESS\<close> arrives after it.
\<close>

theorem C3_video_player_posts_process_unacknowledged:
  "player_log (player_run sample_subtle [FetchSettles 0 (FetchOk [1, 2, 3])]
       (player_mount
          \<lparr>streamUrl = ''/api/stream/1'', seedKeyProp = sample_seed, autoplay = False\<rparr>)) =
     [WorkerCreated 0, Posted 0 (SINIT (Some sample_seed)), FetchIssued ''/api/stream/1'',
      Posted 0 (PROCESS [1, 2, 3])]
   \<and> \<not> acknowledged_before_process 0 False
        [WorkerCreated 0, Posted 0 (SINIT (Some sample_seed)), FetchIssued ''/api/stream/1'',
         Posted 0 (PROCESS [1, 2, 3])]
   \<and> player_log (player_run sample_subtle
        [FetchSettles 0 (FetchOk [1, 2, 3]), WorkerReceives 0, WorkerReceives 0,
         WorkerResumes 0 0, WorkerResumes 0 0, ReplyDelivered 0, ReplyDelivered 0]
       (player_mount
          \<lparr>streamUrl = ''/api/stream/1'', seedKeyProp = sample_seed, autoplay = False\<rparr>)) =
     [WorkerCreated 0, Posted 0 (SINIT (Some sample_seed)), FetchIssued ''/api/stream/1'',
      Posted 0 (PROCESS [1, 2, 3]),
      Received 0 (SERROR ''Processor key not initialized. Call INIT first.''),
      OnError ''Processor key not initialized. Call INIT first.'',
      Received 0 SINIT_SUCCESS]"
  by (simp add: player_mount_def initializePlayer_def player_initial_def set_state_def
      post_message_def player_step_def fetch_settled_def stream_receive_def stream_resume_def
      stream_error_reply_def seed_too_short_def handleWorkerMessage_def
      stream_process_initial_def stream_worker_initial_def sample_subtle_def sample_seed_def
      Let_def)

text \<open>
  The rest of a session runs against whatever the component holds when its fetch
  settles. After a change of the props, the fetch of the first session posts its data
  to the worker of the second, which \<open>workerRef.current\<close> then holds. After the
  component is unmounted, the fetch posts nothing and \<open>play\<close> is not called.
\<close>

lemma video_player_stale_fetch:
  "player_log (player_run sample_subtle
       [PropsChanged \<lparr>streamUrl = ''/api/stream/2'', seedKeyProp = sample_seed, autoplay = False\<rparr>,
        FetchSettles 0 (FetchOk [1, 2, 3])]
       (player_mount
          \<lparr>streamUrl = ''/api/stream/1'', seedKeyProp = sample_seed, autoplay = False\<rparr>)) =
     [WorkerCreated 0, Posted 0 (SINIT (Some sample_seed)), FetchIssued ''/api/stream/1'',
      WorkerTerminated 0,
      WorkerCreated 1, Posted 1 (SINIT (Some sample_seed)), FetchIssued ''/api/stream/2'',
      Posted 1 (PROCESS [1, 2, 3])]"
  by (simp add: player_mount_def initializePlayer_def player_initial_def set_state_def
      post_message_def player_step_def fetch_settled_def cleanup_def Let_def)

lemma video_player_fetch_after_unmount:
  "player_log (player_run sample_subtle [PlayerUnmounts, FetchSettles 0 (FetchOk [1, 2, 3])]
       (player_mount
          \<lparr>streamUrl = ''/api/stream/1'', seedKeyProp = sample_seed, autoplay = True\<rparr>)) =
     [WorkerCreated 0, Posted 0 (SINIT (Some sample_seed)), FetchIssued ''/api/stream/1'',
      WorkerTerminated 0]"
  by (simp add: player_mount_def initializePlayer_def player_initial_def set_state_def
      post_message_def player_step_def fetch_settled_def cleanup_def Let_def)

section \<open>The player with key strategies: the sibling of the seed-strategy player\<close>

text \<open>
  The validation effect rejects a missing or empty seed under the seed strategy: it sets
  the error and the status \<open>error\<close> and invokes the error callback.
\<close>

lemma usp_validation_missing_seed:
  assumes "usp_keyStrategy p = Seed" and "\<not> truthy (usp_seedKey p)" and "usp_mounted st"
  shows "usp_status (usp_validation p st) = VideoError
       \<and> usp_error (usp_validation p st) = ''seedKey is required for seed key strategy''
       \<and> (\<exists>pre. usp_log (usp_validation p st) =
             pre @ [UOnError ''seedKey is required for seed key strategy''])"
  using assms
  by (auto simp: usp_validation_def usp_invalid_def usp_set_def Let_def)

text \<open>
  Mounted for an archive with an empty seed, this player reports the invalid seed, then
  constructs the worker and fails with \<open>Invalid key configuration\<close>: no \<open>INIT\<close> is
  posted and no fetch is issued. With a seed that is not empty but shorter than 32
  characters it posts \<open>INIT\<close>, and the \<open>ERROR\<close> of the worker does not resolve the
  promise it waits for: the status stays \<open>loading\<close>.
\<close>

lemma usp_mount_empty_seed:
  "usp_log (usp_mount
      \<lparr>usp_videoId = Some ''clip-1'', usp_streamUrl = None, usp_mode = Archive,
       usp_keyStrategy = Seed, usp_deviceId = None, usp_seedKey = Some [],
       usp_autoPlay = False, usp_token = None\<rparr>) =
     [UOnError ''seedKey is required for seed key strategy'',
      UWorkerCreated StreamWorker,
      UOnError ''Invalid key configuration'']
   \<and> usp_status (usp_mount
      \<lparr>usp_videoId = Some ''clip-1'', usp_streamUrl = None, usp_mode = Archive,
       usp_keyStrategy = Seed, usp_deviceId = None, usp_seedKey = Some [],
       usp_autoPlay = False, usp_token = None\<rparr>) = VideoError"
  by (simp add: usp_mount_def loadVideo_def loadArchiveVideo_def usp_validation_def
      usp_invalid_def usp_fail_def usp_set_def usp_initial_def truthy_def Let_def)

lemma usp_mount_short_seed:
  "usp_log (usp_run
      \<lparr>usp_videoId = Some ''clip-1'', usp_streamUrl = None, usp_mode = Archive,
       usp_keyStrategy = Seed, usp_deviceId = None, usp_seedKey = Some ''hunter2'',
       usp_autoPlay = False, usp_token = None\<rparr>
      [WorkerReplies \<lparr>reply_type = ''ERROR'', reply_data = [],
         reply_error = ''Seed key must be at least 32 characters''\<rparr>]
      (usp_mount
      \<lparr>usp_videoId = Some ''clip-1'', usp_streamUrl = None, usp_mode = Archive,
       usp_keyStrategy = Seed, usp_deviceId = None, usp_seedKey = Some ''hunter2'',
       usp_autoPlay = False, usp_token = None\<rparr>)) =
     [UWorkerCreated StreamWorker,
      UPosted \<lparr>um_type = ''INIT'', um_seedKey = Some ''hunter2'', um_encodedData = None,
               um_dataKey = None, um_data = None\<rparr>,
      UReceived \<lparr>reply_type = ''ERROR'', reply_data = [],
         reply_error = ''Seed key must be at least 32 characters''\<rparr>]
   \<and> usp_status (usp_run
      \<lparr>usp_videoId = Some ''clip-1'', usp_streamUrl = None, usp_mode = Archive,
       usp_keyStrategy = Seed, usp_deviceId = None, usp_seedKey = Some ''hunter2'',
       usp_autoPlay = False, usp_token = None\<rparr>
      [WorkerReplies \<lparr>reply_type = ''ERROR'', reply_data = [],
         reply_error = ''Seed key must be at least 32 characters''\<rparr>]
      (usp_mount
      \<lparr>usp_videoId = Some ''clip-1'', usp_streamUrl = None, usp_mode = Archive,
       usp_keyStrategy = Seed, usp_deviceId = None, usp_seedKey = Some ''hunter2'',
       usp_autoPlay = False, usp_token = None\<rparr>)) = Loading"
  by (simp add: usp_mount_def loadVideo_def loadArchiveVideo_def usp_validation_def
      usp_step_def usp_worker_replied_def usp_set_def usp_initial_def truthy_def Let_def)

text \<open>
  With a valid seed this player issues the fetch only when \<open>INIT_SUCCESS\<close> has been
  received, and posts \<open>PROCESS\<close> when the fetch has settled.
\<close>

lemma usp_seed_session:
  "usp_log (usp_run
      \<lparr>usp_videoId = Some ''clip-1'', usp_streamUrl = None, usp_mode = Archive,
       usp_keyStrategy = Seed, usp_deviceId = None, usp_seedKey = Some sample_seed,
       usp_autoPlay = False, usp_token = None\<rparr>
      [WorkerReplies \<lparr>reply_type = ''INIT_SUCCESS'', reply_data = [], reply_error = []\<rparr>,
       ArchiveOrLiveFetchSettles (FetchOk [1, 2, 3])]
      (usp_mount
      \<lparr>usp_videoId = Some ''clip-1'', usp_streamUrl = None, usp_mode = Archive,
       usp_keyStrategy = Seed, usp_deviceId = None, usp_seedKey = Some sample_seed,
       usp_autoPlay = False, usp_token = None\<rparr>)) =
     [UWorkerCreated StreamWorker,
      UPosted \<lparr>um_type = ''INIT'', um_seedKey = Some sample_seed, um_encodedData = None,
               um_dataKey = None, um_data = None\<rparr>,
      UReceived \<lparr>reply_type = ''INIT_SUCCESS'', reply_data = [], reply_error = []\<rparr>,
      UFetchArchive ''clip-1'',
      UPosted \<lparr>um_type = ''PROCESS'', um_seedKey = None, um_encodedData = Some [1, 2, 3],
               um_dataKey = None, um_data = Some [1, 2, 3]\<rparr>]"
  by (simp add: usp_mount_def loadVideo_def loadArchiveVideo_def usp_validation_def
      usp_step_def usp_worker_replied_def usp_fetch_settled_def usp_fetch_archive_def
      usp_finish_def usp_set_def usp_initial_def truthy_def text_of_def sample_seed_def Let_def)

text \<open>
  On every schedule, this player posts \<open>PROCESS\<close> only after it has received the
  acknowledgment of \<open>INIT\<close>: the property that the seed-strategy player lacks.
\<close>

lemma ack_seen_append: "ack_seen (xs @ ys) = (ack_seen xs \<or> ack_seen ys)"
  by (induction xs rule: ack_seen.induct) auto

lemma usp_acknowledged_append:
  "usp_acknowledged a (xs @ ys) =
     (usp_acknowledged a xs \<and> usp_acknowledged (a \<or> ack_seen xs) ys)"
  by (induction a xs rule: usp_acknowledged.induct) auto

lemma usp_acknowledged_True: "usp_acknowledged True xs"
  by (induction "True" xs rule: usp_acknowledged.induct) auto

lemma usp_invalid_acknowledged:
  "usp_acknowledged a (usp_log (usp_invalid m st)) = usp_acknowledged a (usp_log st)"
  by (simp add: usp_invalid_def usp_set_def Let_def usp_acknowledged_append)

lemma usp_validation_acknowledged:
  "usp_acknowledged a (usp_log (usp_validation p st)) = usp_acknowledged a (usp_log st)"
  by (simp add: usp_validation_def Let_def usp_invalid_acknowledged)

lemma loadVideo_inv: "usp_acknowledged False (usp_log st) \<Longrightarrow> usp_inv p (loadVideo p st)"
  by (auto simp: usp_inv_def loadVideo_def loadArchiveVideo_def loadLiveStream_def
      usp_fail_def usp_finish_def usp_set_def Let_def usp_acknowledged_append ack_seen_append)

lemma usp_inv_mount: "usp_inv p (usp_mount p)"
  unfolding usp_mount_def
  by (rule loadVideo_inv) (simp add: usp_validation_acknowledged usp_initial_def)

lemma usp_inv_step: "usp_inv p st \<Longrightarrow> usp_inv p (usp_step p ev st)"
proof (cases ev)
  case (KeySettles r)
  assume "usp_inv p st"
  with KeySettles show ?thesis
    by (auto simp: usp_inv_def usp_step_def usp_key_settled_def usp_fetch_archive_def
        usp_fail_def usp_set_def Let_def usp_acknowledged_append ack_seen_append
        split: sum.splits option.splits usp_phase.splits)
next
  case (WorkerReplies m)
  assume "usp_inv p st"
  with WorkerReplies show ?thesis
    by (auto simp: usp_inv_def usp_step_def usp_worker_replied_def usp_fetch_archive_def
        usp_set_def Let_def usp_acknowledged_append ack_seen_append is_ack_def
        split: usp_handler.splits usp_phase.splits)
next
  case (ArchiveOrLiveFetchSettles r)
  assume "usp_inv p st"
  with ArchiveOrLiveFetchSettles show ?thesis
    by (auto simp: usp_inv_def usp_step_def usp_fetch_settled_def usp_fail_def usp_finish_def
        usp_set_def Let_def usp_acknowledged_append ack_seen_append usp_acknowledged_True
        split: fetch_result.splits usp_phase.splits)
next
  case CleanupRuns
  assume "usp_inv p st"
  with CleanupRuns show ?thesis
    by (auto simp: usp_inv_def usp_step_def usp_cleanup_def usp_acknowledged_append
        ack_seen_append split: usp_phase.splits)
next
  case UspUnmounts
  assume "usp_inv p st"
  with UspUnmounts show ?thesis
    by (auto simp: usp_inv_def usp_step_def usp_cleanup_def usp_acknowledged_append
        ack_seen_append split: usp_phase.splits)
qed

lemma usp_inv_run: "usp_inv p st \<Longrightarrow> usp_inv p (usp_run p evs st)"
  by (induction evs arbitrary: st) (auto intro: usp_inv_step)

lemma usp_process_after_acknowledgment:
  "usp_acknowledged False (usp_log (usp_run p evs (usp_mount p)))"
  using usp_inv_run [OF usp_inv_mount, of p evs] by (simp add: usp_inv_def)

section \<open>The master-key player: the workers it owns\<close>

text \<open>
  When the inputs change, the cleanup terminates the worker the player holds before
  the effect creates the next one: if no other worker was live, exactly the new one is.
\<close>

lemma effect_cleanup_live:
  "set (sp_live st) \<subseteq> set_option (sp_workerRef st) \<Longrightarrow> sp_live (effect_cleanup st) = []"
  by (cases "sp_workerRef st") (auto simp: effect_cleanup_def filter_empty_conv removeAll_filter_not_eq)

lemma loadAndProcessVideo_live:
  "sp_live (loadAndProcessVideo k r st) = sp_live st @ [sp_created st]
   \<and> sp_workerRef (loadAndProcessVideo k r st) = Some (sp_created st)"
  by (auto simp: loadAndProcessVideo_def sp_failed_def Let_def
      split: sum.splits option.splits fetch_result.splits)

lemma inputs_changed_one_worker:
  assumes "set (sp_live st) \<subseteq> set_option (sp_workerRef st)"
  shows "sp_live (sp_step (InputsChanged k r) st) = [sp_created st]"
proof -
  have "sp_live (effect_cleanup st) = []"
    using assms by (rule effect_cleanup_live)
  moreover have "sp_created (effect_cleanup st) = sp_created st"
    by (simp add: effect_cleanup_def split: option.splits)
  ultimately show ?thesis
    by (simp add: sp_step_def loadAndProcessVideo_live)
qed

text \<open>
  Claim C4, evaluated where the code departs from it. A player mounted for a device
  without a stored key ends in status \<open>error\<close> with its worker 0 live. A click on Retry
  runs \<open>loadAndProcessVideo\<close> again without the cleanup: worker 1 is created and worker 0
  is still live. A change of the inputs in the same state leaves worker 1 alone.
\<close>

theorem C4_retry_leaves_two_workers:
  "fst (getMasterKey ''camera-1'' no_faults key_storage_initial) = Inr None
   \<and> sp_status (sp_mount (Inr None) (FetchOk [1, 2, 3])) = VideoError
   \<and> sp_live (sp_mount (Inr None) (FetchOk [1, 2, 3])) = [0]
   \<and> sp_live (sp_run [RetryClicked (Inr None) (FetchOk [1, 2, 3])]
        (sp_mount (Inr None) (FetchOk [1, 2, 3]))) = [0, 1]
   \<and> sp_live (sp_run [InputsChanged (Inr None) (FetchOk [1, 2, 3])]
        (sp_mount (Inr None) (FetchOk [1, 2, 3]))) = [1]"
  by (simp add: getMasterKey_def ensure_db_def initialize_def no_faults_def
      key_storage_initial_def sp_mount_def sp_step_def loadAndProcessVideo_def sp_failed_def
      effect_cleanup_def secure_player_initial_def)

section \<open>The pairing coordinator: failure of the connection\<close>

text \<open>
  Claim C8, evaluated where the code departs from it. After a click on Start Pairing in
  the idle state the status is \<open>pairing\<close>, and the handlers of the socket have captured
  the status \<open>idle\<close>. A close event that is not clean then changes nothing, the status
  stays \<open>pairing\<close>; an error event of the socket does set the status \<open>error\<close>.
\<close>

theorem C8_unclean_close_keeps_pairing:
  "click_start (Inr ''data:image/png;base64,AAAA'') pairing_initial =
     (Some Idle, pairing_initial\<lparr>pairing_status := Pairing,
        qrCodeImage := ''data:image/png;base64,AAAA'', ws_open := True\<rparr>)
   \<and> pairing_status (ws_onclose Idle False
        (pairing_initial\<lparr>pairing_status := Pairing,
           qrCodeImage := ''data:image/png;base64,AAAA'', ws_open := True\<rparr>)) = Pairing
   \<and> pairing_status (ws_onerror
        (pairing_initial\<lparr>pairing_status := Pairing,
           qrCodeImage := ''data:image/png;base64,AAAA'', ws_open := True\<rparr>)) = PairingError"
  by (simp add: click_start_def start_button_rendered_def startPairing_def pairing_initial_def
      ws_onclose_def ws_onerror_def)

text \<open>
  The status captured by the handlers is never \<open>pairing\<close>, since the buttons that start
  a pairing are rendered in the other states only; so \<open>ws.onclose\<close> never changes the
  state.
\<close>

lemma stale_status_never_pairing:
  "click_start prepared st = (Some captured, st') \<Longrightarrow> captured \<noteq> Pairing"
  by (auto simp: click_start_def start_button_rendered_def startPairing_def Let_def
      split: if_splits sum.splits thrown.splits)

lemma ws_onclose_after_click:
  "click_start prepared st = (Some captured, st') \<Longrightarrow> ws_onclose captured wasClean st'' = st''"
  by (drule stale_status_never_pairing) (simp add: ws_onclose_def)

end
